theory Spec2Isabelle
  imports Complex_Main "HOL-Library.AList" "HOL-Library.Multiset"
begin

section \<open>Python values: exceptions and dictionaries\<close>

text \<open>
  Every exception the modelled code can raise is a value; a fallible function returns
  \<open>error + 'a\<close> with \<open>Inl\<close> for the exception.
\<close>

datatype error =
  KeyError | AssertionError | FileNotFoundError | UnpicklingError | ValueError | IndexError

text \<open>
  A Python \<open>dict\<close> is an association list in insertion order whose keys are distinct.
  \<open>d[k] = v\<close> keeps the position of an existing key and appends a new one, which is
  what \<open>AList.update\<close> does; \<open>len(d)\<close> is the length of the list.
\<close>

type_synonym ('k, 'v) dict = "('k \<times> 'v) list"

definition dict_len :: "('k, 'v) dict \<Rightarrow> nat" where
  "dict_len d = length d"

definition dict_getitem :: "('k, 'v) dict \<Rightarrow> 'k \<Rightarrow> error + 'v" where
  "dict_getitem d k = (case map_of d k of None \<Rightarrow> Inl KeyError | Some v \<Rightarrow> Inr v)"

definition dict_setitem :: "'k \<Rightarrow> 'v \<Rightarrow> ('k, 'v) dict \<Rightarrow> ('k, 'v) dict" where
  "dict_setitem k v d = AList.update k v d"

text \<open>The comprehension \<open>{v: k for k, v in d.items()}\<close> of \<open>reload_state\<close> and \<open>init_state\<close>.\<close>

definition swap_items :: "('k, 'v) dict \<Rightarrow> ('v, 'k) dict" where
  "swap_items d = foldl (\<lambda>acc (k, v). dict_setitem v k acc) [] d"

text \<open>\<open>x.get(key, default)\<close> on an optional entry.\<close>

definition get_default :: "'a option \<Rightarrow> 'a \<Rightarrow> 'a" where
  "get_default x d = (case x of None \<Rightarrow> d | Some v \<Rightarrow> v)"

section \<open>Configuration, command line and files\<close>

text \<open>
  The recognised options of \<open>config.yaml\<close>. An option that is not set is \<open>None\<close>;
  the \<open>training\<close> and \<open>bidaf\<close> sections may be missing as a whole.
\<close>

record training_config =
  lr :: "real option"
  betas :: "(real \<times> real) option"
  eps :: "real option"
  weight_decay :: "real option"
  batch_size :: "nat option"
  epochs :: "int option"
  teacher_forcing_ratio :: "real option"
  limit :: "nat option"

record 'bc config =
  training :: "training_config option"
  bidaf :: "'bc option"

text \<open>\<open>config.get('training', {}).get(key)\<close>\<close>

definition training_get :: "'bc config \<Rightarrow> (training_config \<Rightarrow> 'a option) \<Rightarrow> 'a option" where
  "training_get config key = (case training config of None \<Rightarrow> None | Some tr \<Rightarrow> key tr)"

text \<open>
  The parsed command line. The two positional paths select files of the \<open>files\<close>
  record below; \<open>arg_word_rep\<close> says whether a path to pre-trained vectors was given.
\<close>

record args =
  arg_force_restart :: bool
  arg_word_rep :: bool
  arg_cuda :: bool
  arg_use_covariance :: bool

text \<open>
  The HDF5 checkpoint file: the two vocabulary groups, the epoch counter
  \<open>training/epoch\<close> and the stored model. A group that was never written is \<open>None\<close>.
\<close>

type_synonym vocab = "(nat, string) dict"

record 'm checkpoint =
  vocab :: "vocab option"
  c_vocab :: "vocab option"
  training_epoch :: "int option"
  training_model :: "'m option"

text \<open>
  The optimizer-state file \<open>checkpoint.opt\<close>: missing, readable, or present but not
  loadable.
\<close>

datatype 'sd opt_file = Absent | Valid 'sd | Corrupt

text \<open>
  The files the program touches. \<open>data_file\<close> is represented by the flat example list
  that \<open>load_data\<close> extracts from its JSON; \<open>word_rep_file\<close> by the token-to-vector
  table its lines spell out.
\<close>

record ('m, 'os, 'bc, 'ex, 'v) files =
  config_yaml :: "'bc config option"
  checkpoint_file :: "'m checkpoint option"
  checkpoint_opt :: "'os option opt_file"
  data_file :: "'ex list option"
  word_rep_file :: "(string \<rightharpoonup> 'v) option"

section \<open>Resuming: \<open>try_to_resume\<close>\<close>

text \<open>
  \<open>checkpoint['training/epoch'][()]\<close> raises \<open>KeyError\<close> when the counter was never
  written. \<open>torch.load\<close> raising \<open>FileNotFoundError\<close> is caught; any other failure
  of \<open>torch.load\<close> propagates.
\<close>

definition try_to_resume ::
  "bool \<Rightarrow> ('m, 'os, 'bc, 'ex, 'v) files \<Rightarrow>
     error + ('m checkpoint option \<times> 'os option option \<times> int)" where
  "try_to_resume force_restart fs =
     (if force_restart then Inr (None, None, 0)
      else case checkpoint_file fs of
        Some checkpoint \<Rightarrow>
          (case training_epoch checkpoint of
             None \<Rightarrow> Inl KeyError
           | Some stored \<Rightarrow>
               (let epoch = stored + 1 in
                case checkpoint_opt fs of
                  Valid training_state \<Rightarrow> Inr (Some checkpoint, Some training_state, epoch)
                | Absent \<Rightarrow> Inr (Some checkpoint, None, epoch)
                | Corrupt \<Rightarrow> Inl UnpicklingError))
      | None \<Rightarrow> Inr (None, None, 0))"

section \<open>The optimizer and the code this file calls\<close>

text \<open>
  An Adam optimizer: the parameters it updates, its hyperparameters and its internal
  state, \<open>None\<close> for an optimizer that has no history.
\<close>

record ('p, 'os) optimizer =
  params :: "'p list"
  opt_lr :: real
  opt_betas :: "real \<times> real"
  opt_eps :: real
  opt_weight_decay :: real
  opt_state :: "'os option"

definition Adam :: "'p list \<Rightarrow> real \<Rightarrow> real \<times> real \<Rightarrow> real \<Rightarrow> real \<Rightarrow> ('p, 'os) optimizer" where
  "Adam ps l b e wd =
     \<lparr>params = ps, opt_lr = l, opt_betas = b, opt_eps = e, opt_weight_decay = wd,
      opt_state = None\<rparr>"

definition load_state_dict :: "('p, 'os) optimizer \<Rightarrow> 'os option \<Rightarrow> ('p, 'os) optimizer" where
  "load_state_dict optimizer state = optimizer\<lparr>opt_state := state\<rparr>"

definition state_dict :: "('p, 'os) optimizer \<Rightarrow> 'os option" where
  "state_dict optimizer = opt_state optimizer"

text \<open>
  The training script is glue around a tensor library, a tokenizer and a network. What
  they compute is a parameter of the model, one field for each operation the script
  calls:
  \<^item> \<open>SOS_TOKEN\<close>, \<open>EOS_TOKEN\<close>: the sentinel tokens of the \<open>constants\<close> module;
  \<^item> \<open>tokenize_data\<close>: the tokenizer, returning the two dictionaries as it leaves them;
  \<^item> \<open>from_config\<close>, \<open>parameters\<close>, \<open>requires_grad\<close>, \<open>embedding_weight\<close>,
    \<open>set_embedding_weight\<close>: the network, its parameter list and the weight matrix of
    its first embedding layer, one row for each token id;
  \<^item> \<open>forward_loss\<close>: a forward pass over a batch and \<open>eval_batch_loss\<close> on its
    output, giving the batch loss and perplexity; \<open>backward_step\<close>: \<open>zero_grad\<close>,
    \<open>backward\<close> and \<open>optimizer.step\<close> for that batch;
  \<^item> \<open>get_norm_stats\<close>, \<open>RandomState\<close>, \<open>multivariate_normal\<close>: the mean and
    covariance of a vector table, a generator made from a seed, and one draw from it;
  \<^item> \<open>permutation\<close>: a random order of \<open>n\<close> indices from the process-wide generator.
  Placing tensors on a GPU does not change their values and is left out.
\<close>

type_synonym rvocab = "(string, nat) dict"

record ('m, 'p, 'os, 'bc, 'ex, 'tk, 'v, 'c, 'g) env =
  SOS_TOKEN :: string
  EOS_TOKEN :: string
  tokenize_data :: "'ex list \<Rightarrow> rvocab \<Rightarrow> rvocab \<Rightarrow> nat option \<Rightarrow> 'tk list \<times> rvocab \<times> rvocab"
  from_config :: "'bc \<Rightarrow> vocab \<Rightarrow> vocab \<Rightarrow> nat \<Rightarrow> nat \<Rightarrow> 'm"
  parameters :: "'m \<Rightarrow> 'p list"
  requires_grad :: "'p \<Rightarrow> bool"
  embedding_weight :: "'m \<Rightarrow> 'v list"
  set_embedding_weight :: "'m \<Rightarrow> 'v list \<Rightarrow> 'm"
  forward_loss :: "'m \<Rightarrow> 'tk list \<Rightarrow> real \<Rightarrow> real \<times> real"
  backward_step :: "'m \<Rightarrow> ('p, 'os) optimizer \<Rightarrow> 'tk list \<Rightarrow> real \<Rightarrow> 'm \<times> ('p, 'os) optimizer"
  get_norm_stats :: "(string \<rightharpoonup> 'v) \<Rightarrow> bool \<Rightarrow> 'v \<times> 'c"
  RandomState :: "nat \<Rightarrow> 'g"
  multivariate_normal :: "'v \<Rightarrow> 'c \<Rightarrow> bool \<Rightarrow> 'g \<Rightarrow> 'v \<times> 'g"
  permutation :: "'g \<Rightarrow> nat \<Rightarrow> nat list \<times> 'g"

subsection \<open>\<open>get_optimizer\<close>\<close>

text \<open>\<open>config['training']\<close> raises \<open>KeyError\<close> when the section is missing.\<close>

definition get_optimizer ::
  "('m, 'p, 'os, 'bc, 'ex, 'tk, 'v, 'c, 'g) env \<Rightarrow> 'm \<Rightarrow> 'bc config \<Rightarrow> 'os option option \<Rightarrow>
     error + ('p, 'os) optimizer" where
  "get_optimizer env model config state =
     (let parameters' = filter (requires_grad env) (parameters env model) in
      case training config of
        None \<Rightarrow> Inl KeyError
      | Some tr \<Rightarrow>
          (let optimizer =
                 Adam parameters'
                   (get_default (lr tr) 0.01)
                   (get_default (betas tr) (0.9, 0.999))
                   (get_default (eps tr) (1 / 10 ^ 8))
                   (get_default (weight_decay tr) 0)
           in case state of
                None \<Rightarrow> Inr optimizer
              | Some sd \<Rightarrow> Inr (load_state_dict optimizer sd)))"

section \<open>The batch generator\<close>

text \<open>
  Modelled from the spec: \<open>dataset.EpochGen\<close>, whose source is not part of the files
  at hand. The spec's batch generator shuffles the full example collection with the
  process-wide random source at the start of each epoch and slices the result into
  consecutive groups of the configured batch size, the last group possibly short. A
  batch is the list of its examples. The spec is silent on a batch size of zero; the
  model yields no batch then.
\<close>

record 'tk EpochGen =
  gen_data :: "'tk list"
  gen_batch_size :: nat
  gen_shuffle :: bool

function slices :: "nat \<Rightarrow> 'a list \<Rightarrow> 'a list list" where
  "slices n xs = (if n = 0 \<or> xs = [] then [] else take n xs # slices n (drop n xs))"
  by pat_completeness auto
termination
  by (relation "measure (\<lambda>(n, xs). length xs)") auto

declare slices.simps [simp del]

definition shuffle_by :: "nat list \<Rightarrow> 'a list \<Rightarrow> 'a list" where
  "shuffle_by perm xs = map (\<lambda>i. xs ! i) perm"

definition epoch_batches ::
  "('m, 'p, 'os, 'bc, 'ex, 'tk, 'v, 'c, 'g) env \<Rightarrow> 'tk EpochGen \<Rightarrow> 'g \<Rightarrow> 'tk list list \<times> 'g" where
  "epoch_batches env gen g =
     (if gen_shuffle gen then
        (let (perm, g') = permutation env g (length (gen_data gen))
         in (slices (gen_batch_size gen) (shuffle_by perm (gen_data gen)), g'))
      else (slices (gen_batch_size gen) (gen_data gen), g))"

subsection \<open>\<open>get_loader\<close>\<close>

definition get_loader :: "'tk list \<Rightarrow> 'bc config \<Rightarrow> 'tk EpochGen" where
  "get_loader data config =
     \<lparr>gen_data = data,
      gen_batch_size = get_default (training_get config batch_size) 32,
      gen_shuffle = True\<rparr>"

section \<open>Preparing a run\<close>

text \<open>
  \<open>open(args.data)\<close> followed by \<open>load_data(json.load(f_o), ...)\<close>: fails when the
  file is missing.
\<close>

definition load_data :: "'ex list option \<Rightarrow> error + 'ex list" where
  "load_data f = (case f of None \<Rightarrow> Inl FileNotFoundError | Some d \<Rightarrow> Inr d)"

text \<open>
  Modelled from the spec: \<open>BidafModel.from_checkpoint\<close>, whose source is not part of
  the files at hand. The spec's checkpoint store reloads the model weights and the
  vocabulary (token list and character list) that were persisted; reading a group
  that was never written fails.
\<close>

definition from_checkpoint :: "'bc \<Rightarrow> 'm checkpoint \<Rightarrow> error + ('m \<times> vocab \<times> vocab)" where
  "from_checkpoint bc checkpoint =
     (case (training_model checkpoint, vocab checkpoint, c_vocab checkpoint) of
        (Some model, Some id_to_token, Some id_to_char) \<Rightarrow> Inr (model, id_to_token, id_to_char)
      | _ \<Rightarrow> Inl KeyError)"

subsection \<open>\<open>reload_state\<close>\<close>

definition reload_state ::
  "('m, 'p, 'os, 'bc, 'ex, 'tk, 'v, 'c, 'g) env \<Rightarrow> 'm checkpoint \<Rightarrow> 'os option option \<Rightarrow>
     'bc config \<Rightarrow> ('m, 'os, 'bc, 'ex, 'v) files \<Rightarrow>
     error + ('m \<times> vocab \<times> vocab \<times> ('p, 'os) optimizer \<times> 'tk EpochGen)" where
  "reload_state env checkpoint training_state config fs =
     (case bidaf config of
        None \<Rightarrow> Inl KeyError
      | Some bc \<Rightarrow>
     (case from_checkpoint bc checkpoint of
        Inl e \<Rightarrow> Inl e
      | Inr (model, id_to_token, id_to_char) \<Rightarrow>
     (case get_optimizer env model config training_state of
        Inl e \<Rightarrow> Inl e
      | Inr optimizer \<Rightarrow>
     (let token_to_id = swap_items id_to_token;
          char_to_id = swap_items id_to_char;
          len_tok_voc = dict_len token_to_id;
          len_char_voc = dict_len char_to_id
      in case load_data (data_file fs) of
        Inl e \<Rightarrow> Inl e
      | Inr data \<Rightarrow>
     (let limit_passage = training_get config limit;
          (data, token_to_id, char_to_id) =
             tokenize_data env data token_to_id char_to_id limit_passage;
          data = get_loader data config
      in if dict_len token_to_id \<noteq> len_tok_voc then Inl AssertionError
         else if dict_len char_to_id \<noteq> len_char_voc then Inl AssertionError
         else Inr (model, id_to_token, id_to_char, optimizer, data))))))"

section \<open>Pre-trained embeddings\<close>

text \<open>
  Modelled from the spec: \<open>dataset.SymbolEmbSourceText\<close>, whose source is not part of
  the files at hand. The spec's text-sourced adapter builds, from the lines of the
  file, a lookup restricted to a provided token set.
\<close>

definition SymbolEmbSourceText :: "(string \<rightharpoonup> 'v) \<Rightarrow> string set \<Rightarrow> (string \<rightharpoonup> 'v)" where
  "SymbolEmbSourceText f symbols = f |` symbols"

text \<open>
  Modelled from the spec: \<open>dataset.SymbolEmbSourceNorm\<close>, whose source is not part of
  the files at hand. The spec's statistical fallback draws vectors from a multivariate
  normal distribution given by a mean and a covariance, using a seeded generator. The
  record keeps the generator and counts the vectors drawn so far.
\<close>

record ('v, 'c, 'g) SymbolEmbSourceNorm =
  norm_mean :: 'v
  norm_cov :: 'c
  norm_rng :: 'g
  norm_use_covariance :: bool
  norm_drawn :: nat

definition norm_get ::
  "('m, 'p, 'os, 'bc, 'ex, 'tk, 'v, 'c, 'g) env \<Rightarrow> ('v, 'c, 'g) SymbolEmbSourceNorm \<Rightarrow>
     'v \<times> ('v, 'c, 'g) SymbolEmbSourceNorm" where
  "norm_get env oovs =
     (let (v, g') = multivariate_normal env (norm_mean oovs) (norm_cov oovs)
                      (norm_use_covariance oovs) (norm_rng oovs)
      in (v, oovs\<lparr>norm_rng := g', norm_drawn := Suc (norm_drawn oovs)\<rparr>))"

text \<open>
  Modelled from the spec: \<open>dataset.symbol_injection\<close>, whose source is not part of the
  files at hand. The spec's injection policy: for every vocabulary token, excluding
  the reserved id, look up the text-sourced vector; if absent, substitute a freshly
  drawn statistical vector. The result replaces the rows of the weight matrix. Writing
  a row the matrix does not have fails.
\<close>

fun symbol_injection ::
  "('m, 'p, 'os, 'bc, 'ex, 'tk, 'v, 'c, 'g) env \<Rightarrow> vocab \<Rightarrow> nat \<Rightarrow> 'v list \<Rightarrow>
     (string \<rightharpoonup> 'v) \<Rightarrow> ('v, 'c, 'g) SymbolEmbSourceNorm \<Rightarrow>
     error + ('v list \<times> ('v, 'c, 'g) SymbolEmbSourceNorm)" where
  "symbol_injection env [] reserved weights pre_trained oovs = Inr (weights, oovs)"
| "symbol_injection env ((id', tok) # rest) reserved weights pre_trained oovs =
     (if id' = reserved then symbol_injection env rest reserved weights pre_trained oovs
      else if length weights \<le> id' then Inl IndexError
      else case pre_trained tok of
             Some v \<Rightarrow>
               symbol_injection env rest reserved (weights[id' := v]) pre_trained oovs
           | None \<Rightarrow>
               (let (v, oovs') = norm_get env oovs
                in symbol_injection env rest reserved (weights[id' := v]) pre_trained oovs'))"

subsection \<open>\<open>init_state\<close>\<close>

text \<open>
  The branch \<open>if args.word_rep\<close> of \<open>init_state\<close>: the new weight matrix, and the
  fallback source as the injection leaves it.
\<close>

definition inject_word_rep ::
  "('m, 'p, 'os, 'bc, 'ex, 'tk, 'v, 'c, 'g) env \<Rightarrow> args \<Rightarrow> ('m, 'os, 'bc, 'ex, 'v) files \<Rightarrow>
     vocab \<Rightarrow> 'v list \<Rightarrow> error + ('v list \<times> ('v, 'c, 'g) SymbolEmbSourceNorm)" where
  "inject_word_rep env args fs id_to_token weights =
     (case word_rep_file fs of
        None \<Rightarrow> Inl FileNotFoundError
      | Some f_o \<Rightarrow>
          (let pre_trained =
                 SymbolEmbSourceText f_o
                   (set (map snd (filter (\<lambda>(id', tok). id' \<noteq> 0) id_to_token)));
               (mean, cov) = get_norm_stats env pre_trained (arg_use_covariance args);
               rng = RandomState env 2;
               oovs = \<lparr>norm_mean = mean, norm_cov = cov, norm_rng = rng,
                       norm_use_covariance = arg_use_covariance args, norm_drawn = 0\<rparr>
           in symbol_injection env id_to_token 0 weights pre_trained oovs))"

definition init_state ::
  "('m, 'p, 'os, 'bc, 'ex, 'tk, 'v, 'c, 'g) env \<Rightarrow> 'bc config \<Rightarrow> args \<Rightarrow>
     ('m, 'os, 'bc, 'ex, 'v) files \<Rightarrow>
     error + ('m \<times> vocab \<times> vocab \<times> ('p, 'os) optimizer \<times> 'tk EpochGen)" where
  "init_state env config args fs =
     (let token_to_id = [('''', 0)];
          char_to_id = [('''', 0)]
      in case load_data (data_file fs) of
        Inl e \<Rightarrow> Inl e
      | Inr data \<Rightarrow>
     (let (data, token_to_id, char_to_id) = tokenize_data env data token_to_id char_to_id None;
          data = get_loader data config;
          id_to_token = swap_items token_to_id;
          id_to_char = swap_items char_to_id
      in case dict_getitem token_to_id (SOS_TOKEN env) of
        Inl e \<Rightarrow> Inl e
      | Inr sos_id \<Rightarrow>
     (case dict_getitem token_to_id (EOS_TOKEN env) of
        Inl e \<Rightarrow> Inl e
      | Inr eos_id \<Rightarrow>
     (case bidaf config of
        None \<Rightarrow> Inl KeyError
      | Some bc \<Rightarrow>
     (let model = from_config env bc id_to_token id_to_char sos_id eos_id
      in case (if arg_word_rep args then
                 (case inject_word_rep env args fs id_to_token (embedding_weight env model) of
                    Inl e \<Rightarrow> Inl e
                  | Inr (weights, oovs) \<Rightarrow> Inr (set_embedding_weight env model weights))
               else Inr model) of
        Inl e \<Rightarrow> Inl e
      | Inr model \<Rightarrow>
     (case get_optimizer env model config None of
        Inl e \<Rightarrow> Inl e
      | Inr optimizer \<Rightarrow> Inr (model, id_to_token, id_to_char, optimizer, data)))))))"

section \<open>Training\<close>

text \<open>What the logger receives.\<close>

datatype event =
  Resuming | Preparing | StartingEpoch int | EndOfEpoch int
  | TrainLoss nat real | TrainPerplexity nat real

text \<open>
  The state of the running process: the network and its optimizer, the vocabulary,
  the files, the process-wide random generator, the log, and the number of optimizer
  steps taken so far.
\<close>

record ('m, 'p, 'os, 'bc, 'ex, 'v, 'g) process =
  run_model :: 'm
  run_optimizer :: "('p, 'os) optimizer"
  run_id_to_token :: vocab
  run_id_to_char :: vocab
  run_files :: "('m, 'os, 'bc, 'ex, 'v) files"
  np_random :: 'g
  logger :: "event list"
  opt_steps :: nat

subsection \<open>\<open>train\<close>\<close>

text \<open>The loop of \<open>train\<close> over the enumerated batches of one epoch.\<close>

fun train_batches ::
  "('m, 'p, 'os, 'bc, 'ex, 'tk, 'v, 'c, 'g) env \<Rightarrow> real \<Rightarrow> nat \<Rightarrow> 'tk list list \<Rightarrow>
     ('m, 'p, 'os, 'bc, 'ex, 'v, 'g) process \<Rightarrow> ('m, 'p, 'os, 'bc, 'ex, 'v, 'g) process" where
  "train_batches env tfr batch_id [] r = r"
| "train_batches env tfr batch_id (batch # rest) r =
     (let (batch_loss, batch_perplexity) = forward_loss env (run_model r) batch tfr;
          (model, optimizer) = backward_step env (run_model r) (run_optimizer r) batch tfr;
          log = (if batch_id mod 100 = 0
                 then logger r @ [TrainLoss batch_id batch_loss,
                                  TrainPerplexity batch_id batch_perplexity]
                 else logger r)
      in train_batches env tfr (Suc batch_id) rest
           (r\<lparr>run_model := model, run_optimizer := optimizer, logger := log,
              opt_steps := Suc (opt_steps r)\<rparr>))"

definition train ::
  "('m, 'p, 'os, 'bc, 'ex, 'tk, 'v, 'c, 'g) env \<Rightarrow> 'tk EpochGen \<Rightarrow> real \<Rightarrow>
     ('m, 'p, 'os, 'bc, 'ex, 'v, 'g) process \<Rightarrow> ('m, 'p, 'os, 'bc, 'ex, 'v, 'g) process" where
  "train env data tfr r =
     (let (batches, g) = epoch_batches env data (np_random r)
      in train_batches env tfr 0 batches (r\<lparr>np_random := g\<rparr>))"

section \<open>The checkpoint store\<close>

text \<open>
  \<open>h5py.File(path)\<close> as the script uses it: the file is opened when it exists
  and created empty otherwise.
\<close>

definition h5py_File :: "'m checkpoint option \<Rightarrow> 'm checkpoint" where
  "h5py_File f =
     (case f of
        None \<Rightarrow> \<lparr>vocab = None, c_vocab = None, training_epoch = None, training_model = None\<rparr>
      | Some checkpoint \<Rightarrow> checkpoint)"

text \<open>
  Modelled from the spec: \<open>checkpointing.save_vocab\<close>, whose source is not part of the
  files at hand. The spec's fresh run persists the initial vocabulary immediately, in
  the checkpoint's groups for the token list and the character list.
\<close>

definition save_vocab :: "'m checkpoint \<Rightarrow> string \<Rightarrow> vocab \<Rightarrow> 'm checkpoint" where
  "save_vocab checkpoint name v =
     (if name = ''vocab'' then checkpoint\<lparr>vocab := Some v\<rparr>
      else if name = ''c_vocab'' then checkpoint\<lparr>c_vocab := Some v\<rparr>
      else checkpoint)"

text \<open>
  Modelled from the spec: \<open>checkpointing.checkpoint\<close>, whose source is not part of the
  files at hand. The spec's checkpointing step atomically persists the post-epoch
  model weights, the optimizer state and the completed epoch number: the weights and
  the counter in the checkpoint file, the optimizer state in its companion file, as
  one step.
\<close>

definition checkpointing_checkpoint ::
  "'m \<Rightarrow> int \<Rightarrow> ('p, 'os) optimizer \<Rightarrow> ('m, 'os, 'bc, 'ex, 'v) files \<Rightarrow>
     ('m, 'os, 'bc, 'ex, 'v) files" where
  "checkpointing_checkpoint model epoch optimizer fs =
     fs\<lparr>checkpoint_file :=
          Some ((h5py_File (checkpoint_file fs))
                  \<lparr>training_epoch := Some epoch, training_model := Some model\<rparr>),
        checkpoint_opt := Valid (state_dict optimizer)\<rparr>"

section \<open>The main program\<close>

text \<open>
  The epochs the loop of \<open>main\<close> runs: \<open>range(epoch, train_for_epochs)\<close>, or
  \<open>itertools.count(epoch)\<close> when no epoch count is configured. The second never
  ends, and the process can be killed after any epoch, so the model observes a run
  after at most \<open>k\<close> epochs of the sequence.
\<close>

definition epoch_range :: "int \<Rightarrow> int option \<Rightarrow> nat \<Rightarrow> int list" where
  "epoch_range epoch train_for_epochs k =
     (case train_for_epochs of
        Some n \<Rightarrow> take k [epoch..n - 1]
      | None \<Rightarrow> map (\<lambda>i. epoch + int i) [0..<k])"

text \<open>The body of the epoch loop.\<close>

definition run_epoch ::
  "('m, 'p, 'os, 'bc, 'ex, 'tk, 'v, 'c, 'g) env \<Rightarrow> 'tk EpochGen \<Rightarrow> real \<Rightarrow>
     ('m, 'p, 'os, 'bc, 'ex, 'v, 'g) process \<Rightarrow> int \<Rightarrow> ('m, 'p, 'os, 'bc, 'ex, 'v, 'g) process" where
  "run_epoch env data tfr r epoch =
     (let r1 = r\<lparr>logger := logger r @ [StartingEpoch epoch]\<rparr>;
          r2 = train env data tfr r1;
          r3 = r2\<lparr>logger := logger r2 @ [EndOfEpoch epoch]\<rparr>
      in r3\<lparr>run_files :=
               checkpointing_checkpoint (run_model r3) epoch (run_optimizer r3) (run_files r3)\<rparr>)"

text \<open>
  \<open>main\<close> up to the epoch loop: the configuration is read, the run resumes or starts
  fresh, and a fresh run creates the checkpoint file and saves the vocabulary.
\<close>

definition main_prepare ::
  "('m, 'p, 'os, 'bc, 'ex, 'tk, 'v, 'c, 'g) env \<Rightarrow> args \<Rightarrow> ('m, 'os, 'bc, 'ex, 'v) files \<Rightarrow> 'g \<Rightarrow>
     error + ('bc config \<times> int \<times> 'tk EpochGen \<times> ('m, 'p, 'os, 'bc, 'ex, 'v, 'g) process)" where
  "main_prepare env args fs g =
     (case config_yaml fs of
        None \<Rightarrow> Inl FileNotFoundError
      | Some config \<Rightarrow>
     (case try_to_resume (arg_force_restart args) fs of
        Inl e \<Rightarrow> Inl e
      | Inr (checkpoint, training_state, epoch) \<Rightarrow>
     (case checkpoint of
        Some ck \<Rightarrow>
          (case reload_state env ck training_state config fs of
             Inl e \<Rightarrow> Inl e
           | Inr (model, id_to_token, id_to_char, optimizer, data) \<Rightarrow>
               Inr (config, epoch, data,
                    \<lparr>run_model = model, run_optimizer = optimizer,
                     run_id_to_token = id_to_token, run_id_to_char = id_to_char,
                     run_files = fs, np_random = g, logger = [Resuming], opt_steps = 0\<rparr>))
      | None \<Rightarrow>
          (case init_state env config args fs of
             Inl e \<Rightarrow> Inl e
           | Inr (model, id_to_token, id_to_char, optimizer, data) \<Rightarrow>
               (let checkpoint = h5py_File (checkpoint_file fs);
                    checkpoint = save_vocab checkpoint ''vocab'' id_to_token;
                    checkpoint = save_vocab checkpoint ''c_vocab'' id_to_char
                in Inr (config, epoch, data,
                    \<lparr>run_model = model, run_optimizer = optimizer,
                     run_id_to_token = id_to_token, run_id_to_char = id_to_char,
                     run_files = fs\<lparr>checkpoint_file := Some checkpoint\<rparr>,
                     np_random = g, logger = [Preparing], opt_steps = 0\<rparr>))))))"

definition main ::
  "('m, 'p, 'os, 'bc, 'ex, 'tk, 'v, 'c, 'g) env \<Rightarrow> args \<Rightarrow> ('m, 'os, 'bc, 'ex, 'v) files \<Rightarrow> 'g \<Rightarrow>
     nat \<Rightarrow> error + ('m, 'p, 'os, 'bc, 'ex, 'v, 'g) process" where
  "main env args fs g k =
     (case main_prepare env args fs g of
        Inl e \<Rightarrow> Inl e
      | Inr (config, epoch, data, r) \<Rightarrow>
          (let train_for_epochs = training_get config epochs;
               tfr = get_default (training_get config teacher_forcing_ratio) 1.0;
               epochs' = epoch_range epoch train_for_epochs k
           in Inr (foldl (run_epoch env data tfr) r epochs')))"

section \<open>The GloVe lookup utility\<close>

text \<open>
  \<open>Glove.embedding\<close> and \<open>Glove.glove_embedding_one_string\<close>. A GloVe table is a
  dictionary from words to one-dimensional arrays, here lists of reals; the results
  below concern shapes and exceptions, not the arithmetic of the sums.
\<close>

type_synonym glove = "(string, real list) dict"

subsection \<open>\<open>str.split()\<close> and the substitution of the pattern\<close>

text \<open>The characters \<open>str.split()\<close> treats as white space, among the first 256.\<close>

definition isspace :: "char \<Rightarrow> bool" where
  "isspace c =
     (let n = (of_char c :: nat)
      in (9 \<le> n \<and> n \<le> 13) \<or> (28 \<le> n \<and> n \<le> 32) \<or> n = 133 \<or> n = 160)"

fun split_words :: "string \<Rightarrow> string \<Rightarrow> string list" where
  "split_words cur [] = (if cur = [] then [] else [cur])"
| "split_words cur (c # cs) =
     (if isspace c then (if cur = [] then split_words [] cs else cur # split_words [] cs)
      else split_words (cur @ [c]) cs)"

definition str_split :: "string \<Rightarrow> string list" where
  "str_split s = split_words [] s"

text \<open>
  The pattern handed to \<open>re.sub\<close> is
  \<^verbatim>\<open>[{}!#?,.:";@$%^&*()_+-=|[]:;">/?<,.~]\<close>.
  Its bracket expression ends at the first closing bracket, and \<^verbatim>\<open>+-=\<close> inside it
  is the range from \<^verbatim>\<open>+\<close> to \<^verbatim>\<open>=\<close> (codes 43 to 61). What follows is matched
  literally, with an optional \<^verbatim>\<open>/\<close> and one arbitrary character other than a
  newline: a match is one character of the set, then \<^verbatim>\<open>:;">\<close>, then an optional
  \<^verbatim>\<open>/\<close>, then \<^verbatim>\<open><,\<close>, any character, and \<^verbatim>\<open>~]\<close>.
\<close>

definition in_set :: "char \<Rightarrow> bool" where
  "in_set c =
     (c \<in> set [CHR ''{'', CHR ''}'', CHR ''!'', CHR ''#'', CHR ''?'', CHR '','', CHR ''.'',
               CHR '':'', CHR 0x22, CHR '';'', CHR ''@'', CHR ''$'', CHR ''%'', CHR ''^'',
               CHR ''&'', CHR ''*'', CHR ''('', CHR '')'', CHR ''_'', CHR ''|'', CHR ''['']
      \<or> (43 \<le> (of_char c :: nat) \<and> (of_char c :: nat) \<le> 61))"

definition match_tail :: "string \<Rightarrow> bool" where
  "match_tail s =
     (5 \<le> length s \<and> take 2 s = ''<,'' \<and> s ! 2 \<noteq> CHR 0x0A \<and> take 2 (drop 3 s) = ''~]'')"

text \<open>The length of the match that starts at the head of the string, if there is one.\<close>

definition match_here :: "string \<Rightarrow> nat option" where
  "match_here s =
     (case s of
        [] \<Rightarrow> None
      | c # s1 \<Rightarrow>
          if in_set c \<and> take 4 s1 = [CHR '':'', CHR '';'', CHR 0x22, CHR ''>''] then
            (let s2 = drop 4 s1
             in if take 1 s2 = ''/'' \<and> match_tail (drop 1 s2) then Some 11
                else if match_tail s2 then Some 10
                else None)
          else None)"

text \<open>
  \<open>re.sub(pattern, '', word)\<close>: the leftmost matches, one after the other, are
  deleted. The first argument counts the characters of the current match that are
  still to be deleted.
\<close>

fun delete_matches :: "nat \<Rightarrow> string \<Rightarrow> string" where
  "delete_matches k [] = []"
| "delete_matches (Suc k) (c # cs) = delete_matches k cs"
| "delete_matches 0 (c # cs) =
     (case match_here (c # cs) of
        Some n \<Rightarrow> delete_matches (n - 1) cs
      | None \<Rightarrow> c # delete_matches 0 cs)"

definition re_sub :: "string \<Rightarrow> string" where
  "re_sub word = delete_matches 0 word"

subsection \<open>Arrays\<close>

text \<open>
  The value of \<open>np.sum(np.array(temp), axis=0)\<close> is a scalar when \<open>temp\<close> is empty
  and a one-dimensional array when its rows have one common length; rows of different
  lengths do not form an array.
\<close>

datatype ndarray = Scalar real | Vector "real list"

definition np_sum_axis0 :: "real list list \<Rightarrow> error + ndarray" where
  "np_sum_axis0 temp =
     (case temp of
        [] \<Rightarrow> Inr (Scalar 0)
      | v # vs \<Rightarrow>
          if list_all (\<lambda>u. length u = length v) vs
          then Inr (Vector (foldl (map2 (+)) v vs))
          else Inl ValueError)"

text \<open>A two-dimensional array: its shape and its rows.\<close>

record ndarray2 =
  shape :: "nat \<times> nat"
  rows :: "real list list"

definition np_zeros :: "nat \<times> nat \<Rightarrow> ndarray2" where
  "np_zeros s = \<lparr>shape = s, rows = replicate (fst s) (replicate (snd s) 0)\<rparr>"

text \<open>
  \<open>temp[t] = x\<close> for \<open>t\<close> below the number of rows: a scalar or an array of length
  one is broadcast over the row, an array of the row's length is copied, and any other
  length is refused.
\<close>

definition setitem_row :: "ndarray2 \<Rightarrow> nat \<Rightarrow> ndarray \<Rightarrow> error + ndarray2" where
  "setitem_row temp t x =
     (let l = snd (shape temp)
      in case x of
           Scalar a \<Rightarrow> Inr (temp\<lparr>rows := (rows temp)[t := replicate l a]\<rparr>)
         | Vector v \<Rightarrow>
             if length v = l then Inr (temp\<lparr>rows := (rows temp)[t := v]\<rparr>)
             else if length v = 1 then Inr (temp\<lparr>rows := (rows temp)[t := replicate l (hd v)]\<rparr>)
             else Inl ValueError)"

subsection \<open>\<open>glove_embedding_one_string\<close> and \<open>embedding\<close>\<close>

definition glove_embedding_one_string :: "string \<Rightarrow> glove \<Rightarrow> error + ndarray" where
  "glove_embedding_one_string string pretrained_glove =
     (let words = str_split string;
          new_words = map re_sub words;
          temp = List.map_filter (map_of pretrained_glove) new_words
      in np_sum_axis0 temp)"

text \<open>The loop of \<open>embedding\<close> over the strings, with its row counter \<open>t\<close>.\<close>

fun embedding_rows :: "string list \<Rightarrow> glove \<Rightarrow> nat \<Rightarrow> ndarray2 \<Rightarrow> error + ndarray2" where
  "embedding_rows [] pretrained_glove t temp = Inr temp"
| "embedding_rows (i # rest) pretrained_glove t temp =
     (case glove_embedding_one_string i pretrained_glove of
        Inl e \<Rightarrow> Inl e
      | Inr x \<Rightarrow>
          (case setitem_row temp t x of
             Inl e \<Rightarrow> Inl e
           | Inr temp' \<Rightarrow> embedding_rows rest pretrained_glove (t + 1) temp'))"

definition embedding :: "string list \<Rightarrow> glove \<Rightarrow> error + ndarray2" where
  "embedding list pretrained_glove =
     (let n = length list;
          t = 0
      in case dict_getitem pretrained_glove ''a'' of
           Inl e \<Rightarrow> Inl e
         | Inr a \<Rightarrow>
             (let l = length a;
                  temp = np_zeros (n, l)
              in embedding_rows list pretrained_glove t temp))"

section \<open>Reading a run\<close>

text \<open>The epochs a log reports as started and as ended, in order.\<close>

fun epochs_started :: "event list \<Rightarrow> int list" where
  "epochs_started [] = []"
| "epochs_started (StartingEpoch e # evs) = e # epochs_started evs"
| "epochs_started (ev # evs) = epochs_started evs"

fun epochs_completed :: "event list \<Rightarrow> int list" where
  "epochs_completed [] = []"
| "epochs_completed (EndOfEpoch e # evs) = e # epochs_completed evs"
| "epochs_completed (ev # evs) = epochs_completed evs"

text \<open>
  The fallback source after \<open>k\<close> draws, and the vector its next draw gives. An
  out-of-vocabulary token is the \<open>oov_rank\<close>-th of its kind when that many entries
  before it in the vocabulary are neither reserved nor found in the text source.
\<close>

definition after_draws ::
  "('m, 'p, 'os, 'bc, 'ex, 'tk, 'v, 'c, 'g) env \<Rightarrow> nat \<Rightarrow> ('v, 'c, 'g) SymbolEmbSourceNorm \<Rightarrow>
     ('v, 'c, 'g) SymbolEmbSourceNorm" where
  "after_draws env k oovs = ((\<lambda>s. snd (norm_get env s)) ^^ k) oovs"

definition nth_draw ::
  "('m, 'p, 'os, 'bc, 'ex, 'tk, 'v, 'c, 'g) env \<Rightarrow> ('v, 'c, 'g) SymbolEmbSourceNorm \<Rightarrow> nat \<Rightarrow> 'v" where
  "nth_draw env oovs k = fst (norm_get env (after_draws env k oovs))"

definition is_oov :: "(string \<rightharpoonup> 'v) \<Rightarrow> nat \<Rightarrow> nat \<times> string \<Rightarrow> bool" where
  "is_oov pre_trained reserved entry = (fst entry \<noteq> reserved \<and> pre_trained (snd entry) = None)"

definition oov_rank :: "(string \<rightharpoonup> 'v) \<Rightarrow> nat \<Rightarrow> vocab \<Rightarrow> nat \<Rightarrow> nat" where
  "oov_rank pre_trained reserved id_to_token i =
     length (filter (is_oov pre_trained reserved) (takeWhile (\<lambda>entry. fst entry \<noteq> i) id_to_token))"

section \<open>A small concrete setting\<close>

text \<open>
  A toy instance of the parameters, on which the results below are evaluated: a
  network is the number of batches it was trained on together with its weight matrix,
  whose rows are numbers; an example is one token; the tokenizer registers the two
  sentinels and then every unseen token of the data under the next free id.
\<close>

definition toy_setdefault :: "rvocab \<Rightarrow> string \<Rightarrow> rvocab" where
  "toy_setdefault d w = (if map_of d w = None then d @ [(w, length d)] else d)"

definition toy_tokenize ::
  "string list \<Rightarrow> rvocab \<Rightarrow> rvocab \<Rightarrow> nat option \<Rightarrow> string list \<times> rvocab \<times> rvocab" where
  "toy_tokenize data token_to_id char_to_id limit_passage =
     (data, foldl toy_setdefault token_to_id (''<s>'' # ''</s>'' # data), char_to_id)"

definition toy_env ::
  "(nat \<times> nat list, nat, nat, unit, string, string, nat, unit, nat) env" where
  "toy_env =
     \<lparr>SOS_TOKEN = ''<s>'', EOS_TOKEN = ''</s>'',
      tokenize_data = toy_tokenize,
      from_config = (\<lambda>bc id_to_token id_to_char sos eos. (0, replicate (length id_to_token) 0)),
      parameters = (\<lambda>m. [0, 1]),
      requires_grad = (\<lambda>p. p = 0),
      embedding_weight = snd,
      set_embedding_weight = (\<lambda>m w. (fst m, w)),
      forward_loss = (\<lambda>m batch tfr. (0, 1)),
      backward_step = (\<lambda>m opt batch tfr.
         ((Suc (fst m), snd m),
          opt\<lparr>opt_state := Some (case opt_state opt of None \<Rightarrow> 1 | Some s \<Rightarrow> Suc s)\<rparr>)),
      get_norm_stats = (\<lambda>table full. (0, ())),
      RandomState = (\<lambda>seed. seed),
      multivariate_normal = (\<lambda>mean cov full g. (100 + g, Suc g)),
      permutation = (\<lambda>g n. (rev [0..<n], Suc g))\<rparr>"

definition toy_training :: training_config where
  "toy_training =
     \<lparr>lr = None, betas = None, eps = None, weight_decay = None, batch_size = Some 2,
      epochs = Some 1, teacher_forcing_ratio = None, limit = None\<rparr>"

definition toy_config :: "unit config" where
  "toy_config = \<lparr>training = Some toy_training, bidaf = Some ()\<rparr>"

text \<open>An experiment folder before the first run, with three examples and one known vector.\<close>

definition toy_files :: "(nat \<times> nat list, nat, unit, string, nat) files" where
  "toy_files =
     \<lparr>config_yaml = Some toy_config, checkpoint_file = None, checkpoint_opt = Absent,
      data_file = Some [''cat'', ''dog'', ''cat''],
      word_rep_file = Some [''cat'' \<mapsto> 7, ''<s>'' \<mapsto> 8]\<rparr>"

text \<open>The vocabulary the toy tokenizer builds from these examples.\<close>

definition toy_vocab :: vocab where
  "toy_vocab = [(0, ''''), (1, ''<s>''), (2, ''</s>''), (3, ''cat''), (4, ''dog'')]"

text \<open>The same folder after one completed epoch: the checkpoint of epoch 0, no optimizer file.\<close>

definition toy_checkpoint :: "(nat \<times> nat list) checkpoint" where
  "toy_checkpoint =
     \<lparr>vocab = Some toy_vocab, c_vocab = Some [(0, '''')], training_epoch = Some 0,
      training_model = Some (2, [0, 0, 0, 0, 0])\<rparr>"

definition toy_resume_files :: "(nat \<times> nat list, nat, unit, string, nat) files" where
  "toy_resume_files = toy_files\<lparr>checkpoint_file := Some toy_checkpoint\<rparr>"

definition toy_args :: args where
  "toy_args =
     \<lparr>arg_force_restart = False, arg_word_rep = False, arg_cuda = False,
      arg_use_covariance = False\<rparr>"

text \<open>The same configuration and folder for another number of epochs.\<close>

definition toy_config_with :: "int option \<Rightarrow> unit config" where
  "toy_config_with n = toy_config\<lparr>training := Some (toy_training\<lparr>epochs := n\<rparr>)\<rparr>"

definition toy_files_with :: "int option \<Rightarrow> (nat \<times> nat list, nat, unit, string, nat) files" where
  "toy_files_with n = toy_files\<lparr>config_yaml := Some (toy_config_with n)\<rparr>"

text \<open>The checkpoint file as a fresh run has it before its first epoch ends.\<close>

definition toy_vocab_checkpoint :: "(nat \<times> nat list) checkpoint" where
  "toy_vocab_checkpoint =
     \<lparr>vocab = Some toy_vocab, c_vocab = Some [(0, '''')], training_epoch = None,
      training_model = None\<rparr>"

text \<open>The loader and the optimizer of the toy setting.\<close>

definition toy_loader :: "string EpochGen" where
  "toy_loader = \<lparr>gen_data = [''cat'', ''dog'', ''cat''], gen_batch_size = 2, gen_shuffle = True\<rparr>"

definition toy_Adam :: "nat option \<Rightarrow> (nat, nat) optimizer" where
  "toy_Adam s = (Adam [0] 0.01 (0.9, 0.999) (1 / 10 ^ 8) 0)\<lparr>opt_state := s\<rparr>"

section \<open>Results\<close>

text \<open>Unfolding sets for evaluating the toy setting.\<close>

subsection \<open>The toy setting, evaluated\<close>

lemmas toy_defs =
  toy_env_def toy_args_def toy_files_def toy_resume_files_def toy_checkpoint_def toy_vocab_def
  toy_config_def toy_training_def toy_tokenize_def toy_setdefault_def

lemma toy_bidaf: "bidaf toy_config = Some ()"
  by (simp add: toy_config_def)

lemma toy_training: "training toy_config = Some toy_training"
  by (simp add: toy_config_def)

lemma toy_limit: "training_get toy_config limit = None"
  by (simp add: training_get_def toy_training toy_training_def)

lemma toy_batch_size: "get_default (training_get toy_config batch_size) 32 = 2"
  by (simp add: training_get_def toy_training toy_training_def get_default_def)

lemma toy_swap_vocab:
  "swap_items toy_vocab =
     [('''', 0), (''<s>'', 1), (''</s>'', 2), (''cat'', 3), (''dog'', 4)]"
  by (simp add: swap_items_def dict_setitem_def toy_vocab_def)

lemma toy_swap_c_vocab: "swap_items [(0 :: nat, '''')] = [('''', 0)]"
  by (simp add: swap_items_def dict_setitem_def)

lemma toy_from_checkpoint:
  "from_checkpoint () toy_checkpoint = Inr ((2, [0, 0, 0, 0, 0]), toy_vocab, [(0, '''')])"
  by (simp add: from_checkpoint_def toy_checkpoint_def)

lemma toy_get_optimizer:
  "get_optimizer toy_env m toy_config None = Inr (Adam [0] 0.01 (0.9, 0.999) (1 / 10 ^ 8) 0)"
  by (simp add: get_optimizer_def toy_training toy_training_def toy_env_def get_default_def)

lemma toy_resume_data: "data_file toy_resume_files = Some [''cat'', ''dog'', ''cat'']"
  by (simp add: toy_resume_files_def toy_files_def)

lemma toy_tokenize_resume:
  "tokenize_data toy_env [''cat'', ''dog'', ''cat'']
     [('''', 0), (''<s>'', 1), (''</s>'', 2), (''cat'', 3), (''dog'', 4)] [('''', 0)] None =
     ([''cat'', ''dog'', ''cat''],
      [('''', 0), (''<s>'', 1), (''</s>'', 2), (''cat'', 3), (''dog'', 4)], [('''', 0)])"
  by (simp add: toy_env_def toy_tokenize_def toy_setdefault_def)

lemma toy_reload_state:
  "reload_state toy_env toy_checkpoint None toy_config toy_resume_files =
     Inr ((2, [0, 0, 0, 0, 0]), toy_vocab, [(0, '''')],
          Adam [0] 0.01 (0.9, 0.999) (1 / 10 ^ 8) 0,
          get_loader [''cat'', ''dog'', ''cat''] toy_config)"
  by (simp only: reload_state_def toy_bidaf toy_from_checkpoint toy_get_optimizer
        toy_swap_vocab toy_swap_c_vocab toy_resume_data load_data_def toy_limit
        toy_tokenize_resume dict_len_def Let_def option.case sum.case prod.case)
     simp_all

lemma toy_with_bidaf: "bidaf (toy_config_with n) = Some ()"
  by (simp add: toy_config_with_def toy_config_def)

lemma toy_with_training: "training (toy_config_with n) = Some (toy_training\<lparr>epochs := n\<rparr>)"
  by (simp add: toy_config_with_def)

lemma toy_with_get:
  "training_get (toy_config_with n) limit = None"
  "training_get (toy_config_with n) epochs = n"
  "training_get (toy_config_with n) teacher_forcing_ratio = None"
  "training_get (toy_config_with n) batch_size = Some 2"
  by (simp_all add: training_get_def toy_with_training toy_training_def)

lemma toy_config_eq: "toy_config = toy_config_with (Some 1)"
  by (simp add: toy_config_with_def toy_config_def toy_training_def)

lemma toy_files_eq: "toy_files = toy_files_with (Some 1)"
  by (simp add: toy_files_with_def toy_config_eq [symmetric] toy_files_def)

lemma toy_with_loader: "get_loader [''cat'', ''dog'', ''cat''] (toy_config_with n) = toy_loader"
  by (simp add: get_loader_def toy_with_get get_default_def toy_loader_def)

lemma toy_with_get_optimizer:
  "get_optimizer toy_env m (toy_config_with n) None = Inr (toy_Adam None)"
  "get_optimizer toy_env m (toy_config_with n) (Some s) = Inr (toy_Adam s)"
  by (simp_all add: get_optimizer_def toy_with_training toy_training_def toy_env_def
        get_default_def toy_Adam_def Adam_def load_state_dict_def)

lemma toy_tokenize_fresh:
  "tokenize_data toy_env [''cat'', ''dog'', ''cat''] [('''', 0)] [('''', 0)] None =
     ([''cat'', ''dog'', ''cat''],
      [('''', 0), (''<s>'', 1), (''</s>'', 2), (''cat'', 3), (''dog'', 4)], [('''', 0)])"
  by (simp add: toy_env_def toy_tokenize_def toy_setdefault_def)

lemma toy_swap_back:
  "swap_items [('''', 0 :: nat), (''<s>'', 1), (''</s>'', 2), (''cat'', 3), (''dog'', 4)] =
     toy_vocab"
  "swap_items [('''', 0 :: nat)] = [(0, '''')]"
  by (simp_all add: swap_items_def dict_setitem_def toy_vocab_def)

lemma toy_sentinels:
  "dict_getitem [('''', 0 :: nat), (''<s>'', 1), (''</s>'', 2), (''cat'', 3), (''dog'', 4)]
     (SOS_TOKEN toy_env) = Inr 1"
  "dict_getitem [('''', 0 :: nat), (''<s>'', 1), (''</s>'', 2), (''cat'', 3), (''dog'', 4)]
     (EOS_TOKEN toy_env) = Inr 2"
  by (simp_all add: dict_getitem_def toy_env_def)

lemma toy_from_config:
  "from_config toy_env () toy_vocab [(0, '''')] 1 2 = (0, [0, 0, 0, 0, 0])"
  by (simp add: toy_env_def toy_vocab_def numeral_eq_Suc)

lemma toy_data_with: "data_file (toy_files_with n) = Some [''cat'', ''dog'', ''cat'']"
  by (simp add: toy_files_with_def toy_files_def)

lemma toy_args_flags: "arg_force_restart toy_args = False" "arg_word_rep toy_args = False"
  by (simp_all add: toy_args_def)

lemma toy_init_state:
  assumes "data_file fs = Some [''cat'', ''dog'', ''cat'']" and "arg_word_rep args = False"
  shows "init_state toy_env (toy_config_with n) args fs =
           Inr ((0, [0, 0, 0, 0, 0]), toy_vocab, [(0, '''')], toy_Adam None, toy_loader)"
  by (simp only: init_state_def assms load_data_def Let_def option.case sum.case prod.case
        toy_tokenize_fresh toy_swap_back toy_sentinels toy_with_bidaf toy_from_config
        toy_args_flags if_False toy_with_get_optimizer toy_with_loader)

lemma toy_reload_state_with:
  assumes "data_file fs = Some [''cat'', ''dog'', ''cat'']"
  shows "reload_state toy_env toy_checkpoint ts (toy_config_with n) fs =
           Inr ((2, [0, 0, 0, 0, 0]), toy_vocab, [(0, '''')],
                toy_Adam (case ts of None \<Rightarrow> None | Some s \<Rightarrow> s), toy_loader)"
proof (cases ts)
  case None
  show ?thesis
    unfolding None
    by (simp only: reload_state_def toy_with_bidaf toy_from_checkpoint toy_with_get_optimizer
          toy_swap_vocab toy_swap_c_vocab assms load_data_def toy_with_get
          toy_tokenize_resume dict_len_def Let_def option.case sum.case prod.case
          toy_with_loader)
       simp_all
next
  case (Some s)
  show ?thesis
    unfolding Some
    by (simp only: reload_state_def toy_with_bidaf toy_from_checkpoint toy_with_get_optimizer
          toy_swap_vocab toy_swap_c_vocab assms load_data_def toy_with_get
          toy_tokenize_resume dict_len_def Let_def option.case sum.case prod.case
          toy_with_loader)
       simp_all
qed

lemma toy_batches: "epoch_batches toy_env toy_loader g = ([[''cat'', ''dog''], [''cat'']], Suc g)"
  by (simp add: epoch_batches_def toy_loader_def toy_env_def upt_rec shuffle_by_def
        slices.simps)

lemma toy_forward: "forward_loss toy_env m b tfr = (0, 1)"
  by (simp add: toy_env_def)

lemma toy_backward:
  "backward_step toy_env m (toy_Adam s) b tfr =
     ((Suc (fst m), snd m), toy_Adam (Some (case s of None \<Rightarrow> 1 | Some i \<Rightarrow> Suc i)))"
  by (simp add: toy_env_def toy_Adam_def)

lemma toy_run_epoch:
  "run_epoch toy_env toy_loader tfr
     \<lparr>run_model = (0, w), run_optimizer = toy_Adam None, run_id_to_token = itt,
      run_id_to_char = itc, run_files = fs, np_random = g, logger = l, opt_steps = 0\<rparr> e =
     \<lparr>run_model = (2, w), run_optimizer = toy_Adam (Some 2), run_id_to_token = itt,
      run_id_to_char = itc,
      run_files = checkpointing_checkpoint (2, w) e (toy_Adam (Some 2)) fs,
      np_random = Suc g,
      logger = l @ [StartingEpoch e, TrainLoss 0 0, TrainPerplexity 0 1, EndOfEpoch e],
      opt_steps = 2\<rparr>"
  by (simp add: run_epoch_def train_def toy_batches toy_forward toy_backward Let_def
        numeral_2_eq_2)

lemma toy_try_fresh: "try_to_resume False (toy_files_with n) = Inr (None, None, 0)"
  by (simp add: try_to_resume_def toy_files_with_def toy_files_def)

lemma toy_main_prepare_fresh:
  "main_prepare toy_env toy_args (toy_files_with n) g =
     Inr (toy_config_with n, 0, toy_loader,
          \<lparr>run_model = (0, [0, 0, 0, 0, 0]), run_optimizer = toy_Adam None,
           run_id_to_token = toy_vocab, run_id_to_char = [(0, '''')],
           run_files = (toy_files_with n)\<lparr>checkpoint_file := Some toy_vocab_checkpoint\<rparr>,
           np_random = g, logger = [Preparing], opt_steps = 0\<rparr>)"
proof -
  have y: "config_yaml (toy_files_with n) = Some (toy_config_with n)"
    by (simp add: toy_files_with_def)
  have c: "checkpoint_file (toy_files_with n) = None"
    by (simp add: toy_files_with_def toy_files_def)
  have s: "save_vocab (save_vocab (h5py_File None) ''vocab'' toy_vocab) ''c_vocab'' [(0, '''')] =
             toy_vocab_checkpoint"
    by (simp add: save_vocab_def h5py_File_def toy_vocab_checkpoint_def)
  show ?thesis
    by (simp only: main_prepare_def y toy_args_flags toy_try_fresh option.case sum.case
          prod.case toy_init_state [OF toy_data_with toy_args_flags(2)] Let_def c s)
qed

lemma toy_main_one_epoch:
  "main toy_env toy_args toy_files g 5 =
     Inr \<lparr>run_model = (2, [0, 0, 0, 0, 0]), run_optimizer = toy_Adam (Some 2),
          run_id_to_token = toy_vocab, run_id_to_char = [(0, '''')],
          run_files = toy_resume_files\<lparr>checkpoint_opt := Valid (Some 2)\<rparr>,
          np_random = Suc g,
          logger = [Preparing, StartingEpoch 0, TrainLoss 0 0, TrainPerplexity 0 1, EndOfEpoch 0],
          opt_steps = 2\<rparr>"
proof -
  have r: "epoch_range 0 (Some 1) 5 = [0]"
    by (simp add: epoch_range_def upto.simps)
  have f: "checkpointing_checkpoint (2, [0, 0, 0, 0, 0]) 0 (toy_Adam (Some 2))
             ((toy_files_with (Some 1))\<lparr>checkpoint_file := Some toy_vocab_checkpoint\<rparr>) =
           toy_resume_files\<lparr>checkpoint_opt := Valid (Some 2)\<rparr>"
    by (simp add: checkpointing_checkpoint_def h5py_File_def toy_vocab_checkpoint_def
          toy_checkpoint_def toy_resume_files_def toy_files_eq state_dict_def toy_Adam_def)
  show ?thesis
    by (simp add: main_def toy_files_eq toy_main_prepare_fresh toy_with_get r toy_run_epoch f)
qed

subsection \<open>The epoch loop\<close>

lemma epochs_started_append:
  "epochs_started (xs @ ys) = epochs_started xs @ epochs_started ys"
  by (induction xs rule: epochs_started.induct) simp_all

lemma epochs_completed_append:
  "epochs_completed (xs @ ys) = epochs_completed xs @ epochs_completed ys"
  by (induction xs rule: epochs_completed.induct) simp_all

lemma upto_as_map: "[s..n] = map (\<lambda>i. s + int i) [0..<nat (n - s + 1)]"
  by (rule nth_equalityI) simp_all

lemma epoch_range_consecutive:
  "epoch_range s n k = map (\<lambda>i. s + int i) [0..<length (epoch_range s n k)]"
proof (cases n)
  case None
  then show ?thesis by (simp add: epoch_range_def)
next
  case (Some m)
  have "take k [s..m - 1] = map (\<lambda>i. s + int i) (take k [0..<nat (m - 1 - s + 1)])"
    by (subst upto_as_map) (rule take_map)
  also have "take k [0..<nat (m - 1 - s + 1)] = [0..<min k (nat (m - 1 - s + 1))]"
    by (simp add: min_def)
  finally show ?thesis using Some by (simp add: epoch_range_def min_def)
qed

lemma epoch_range_take: "j \<le> k \<Longrightarrow> epoch_range s n j = take j (epoch_range s n k)"
  by (cases n) (simp_all add: epoch_range_def min_def take_map)

lemma epoch_range_complete:
  "nat (n - s) \<le> k \<Longrightarrow> epoch_range s (Some n) k = [s..n - 1]"
  by (simp add: epoch_range_def)

lemma train_batches_frame:
  "run_files (train_batches env tfr i bs r) = run_files r \<and>
   run_id_to_token (train_batches env tfr i bs r) = run_id_to_token r \<and>
   run_id_to_char (train_batches env tfr i bs r) = run_id_to_char r \<and>
   opt_steps (train_batches env tfr i bs r) = opt_steps r + length bs \<and>
   epochs_started (logger (train_batches env tfr i bs r)) = epochs_started (logger r) \<and>
   epochs_completed (logger (train_batches env tfr i bs r)) = epochs_completed (logger r)"
proof (induction bs arbitrary: i r)
  case Nil
  show ?case by simp
next
  case (Cons b bs)
  show ?case
    by (simp add: Cons.IH Let_def epochs_started_append epochs_completed_append
          split: prod.splits)
qed

lemma train_frame:
  "run_files (train env data tfr r) = run_files r \<and>
   run_id_to_token (train env data tfr r) = run_id_to_token r \<and>
   run_id_to_char (train env data tfr r) = run_id_to_char r \<and>
   epochs_started (logger (train env data tfr r)) = epochs_started (logger r) \<and>
   epochs_completed (logger (train env data tfr r)) = epochs_completed (logger r)"
  by (simp add: train_def train_batches_frame split: prod.splits)

lemma run_epoch_frame:
  "run_id_to_token (run_epoch env data tfr r e) = run_id_to_token r \<and>
   run_id_to_char (run_epoch env data tfr r e) = run_id_to_char r \<and>
   epochs_started (logger (run_epoch env data tfr r e)) = epochs_started (logger r) @ [e] \<and>
   epochs_completed (logger (run_epoch env data tfr r e)) = epochs_completed (logger r) @ [e]"
  by (simp add: run_epoch_def Let_def train_frame epochs_started_append
        epochs_completed_append)

lemma run_epoch_files:
  "run_files (run_epoch env data tfr r e) =
     checkpointing_checkpoint (run_model (run_epoch env data tfr r e)) e
       (run_optimizer (run_epoch env data tfr r e)) (run_files r)"
  by (simp add: run_epoch_def Let_def train_frame)

text \<open>What one checkpointing step leaves in the folder.\<close>

lemma h5py_File_Some: "h5py_File (Some ck) = ck"
  by (simp add: h5py_File_def)

lemma checkpointing_checkpoint_files:
  "checkpoint_file (checkpointing_checkpoint m e opt fs) =
     Some ((h5py_File (checkpoint_file fs))\<lparr>training_epoch := Some e, training_model := Some m\<rparr>) \<and>
   checkpoint_opt (checkpointing_checkpoint m e opt fs) = Valid (state_dict opt) \<and>
   config_yaml (checkpointing_checkpoint m e opt fs) = config_yaml fs \<and>
   data_file (checkpointing_checkpoint m e opt fs) = data_file fs \<and>
   word_rep_file (checkpointing_checkpoint m e opt fs) = word_rep_file fs"
  by (simp add: checkpointing_checkpoint_def)

text \<open>
  The loop over any list of epochs: the vocabulary, in memory and in the checkpoint
  file, and the other files stay as they are, and the log grows by the epochs run.
\<close>

lemma epochs_frame:
  "run_id_to_token (foldl (run_epoch env data tfr) r es) = run_id_to_token r \<and>
   run_id_to_char (foldl (run_epoch env data tfr) r es) = run_id_to_char r \<and>
   epochs_started (logger (foldl (run_epoch env data tfr) r es)) =
     epochs_started (logger r) @ es \<and>
   epochs_completed (logger (foldl (run_epoch env data tfr) r es)) =
     epochs_completed (logger r) @ es \<and>
   vocab (h5py_File (checkpoint_file (run_files (foldl (run_epoch env data tfr) r es)))) =
     vocab (h5py_File (checkpoint_file (run_files r))) \<and>
   c_vocab (h5py_File (checkpoint_file (run_files (foldl (run_epoch env data tfr) r es)))) =
     c_vocab (h5py_File (checkpoint_file (run_files r))) \<and>
   config_yaml (run_files (foldl (run_epoch env data tfr) r es)) = config_yaml (run_files r) \<and>
   data_file (run_files (foldl (run_epoch env data tfr) r es)) = data_file (run_files r)"
proof (induction es rule: rev_induct)
  case Nil
  show ?case by simp
next
  case (snoc e es)
  show ?case
    by (simp add: snoc.IH run_epoch_frame run_epoch_files checkpointing_checkpoint_files
          h5py_File_Some)
qed

text \<open>After at least one epoch, the folder holds the checkpoint of the last one.\<close>

lemma epochs_saved:
  assumes "es \<noteq> []"
  shows "\<exists>ck. checkpoint_file (run_files (foldl (run_epoch env data tfr) r es)) = Some ck \<and>
           training_epoch ck = Some (last es) \<and>
           training_model ck = Some (run_model (foldl (run_epoch env data tfr) r es)) \<and>
           vocab ck = vocab (h5py_File (checkpoint_file (run_files r))) \<and>
           c_vocab ck = c_vocab (h5py_File (checkpoint_file (run_files r)))" and
        "checkpoint_opt (run_files (foldl (run_epoch env data tfr) r es)) =
           Valid (state_dict (run_optimizer (foldl (run_epoch env data tfr) r es)))"
proof -
  from assms obtain es' e where es: "es = es' @ [e]"
    by (cases es rule: rev_cases) auto
  let ?r' = "foldl (run_epoch env data tfr) r es'"
  note f = epochs_frame [of env data tfr r es']
  show "\<exists>ck. checkpoint_file (run_files (foldl (run_epoch env data tfr) r es)) = Some ck \<and>
           training_epoch ck = Some (last es) \<and>
           training_model ck = Some (run_model (foldl (run_epoch env data tfr) r es)) \<and>
           vocab ck = vocab (h5py_File (checkpoint_file (run_files r))) \<and>
           c_vocab ck = c_vocab (h5py_File (checkpoint_file (run_files r)))"
    using f by (simp add: es run_epoch_files checkpointing_checkpoint_files)
  show "checkpoint_opt (run_files (foldl (run_epoch env data tfr) r es)) =
           Valid (state_dict (run_optimizer (foldl (run_epoch env data tfr) r es)))"
    by (simp add: es run_epoch_files checkpointing_checkpoint_files)
qed

text \<open>How \<open>main\<close> gets to its loop: resuming, or fresh.\<close>

lemma main_prepare_resume:
  assumes "\<not> arg_force_restart args" and "checkpoint_file fs = Some ck"
      and "training_epoch ck = Some e"
      and "main_prepare env args fs g = Inr (config, epoch, data, r)"
  shows "config_yaml fs = Some config \<and> epoch = e + 1 \<and> logger r = [Resuming] \<and>
         opt_steps r = 0 \<and> run_files r = fs \<and>
         (\<exists>ts. try_to_resume (arg_force_restart args) fs = Inr (Some ck, ts, e + 1) \<and>
               reload_state env ck ts config fs =
                 Inr (run_model r, run_id_to_token r, run_id_to_char r, run_optimizer r, data))"
proof -
  from assms(4) obtain cfg where c: "config_yaml fs = Some cfg"
    by (auto simp: main_prepare_def split: option.splits)
  from assms(4) c obtain ckp ts ep where
    t: "try_to_resume (arg_force_restart args) fs = Inr (ckp, ts, ep)"
    by (auto simp: main_prepare_def split: sum.splits)
  from t assms(1-3) have ck: "ckp = Some ck" "ep = e + 1"
    by (auto simp: try_to_resume_def Let_def split: opt_file.splits)
  from assms(4) show ?thesis
    unfolding main_prepare_def c t ck
    by (auto split: sum.splits)
qed

lemma main_prepare_fresh:
  assumes "arg_force_restart args \<or> checkpoint_file fs = None"
      and "main_prepare env args fs g = Inr (config, epoch, data, r)"
  shows "config_yaml fs = Some config \<and> epoch = 0 \<and> logger r = [Preparing] \<and>
         opt_steps r = 0 \<and>
         init_state env config args fs =
           Inr (run_model r, run_id_to_token r, run_id_to_char r, run_optimizer r, data) \<and>
         run_files r =
           fs\<lparr>checkpoint_file :=
                Some ((h5py_File (checkpoint_file fs))
                        \<lparr>vocab := Some (run_id_to_token r),
                         c_vocab := Some (run_id_to_char r)\<rparr>)\<rparr>"
proof -
  from assms(2) obtain cfg where c: "config_yaml fs = Some cfg"
    by (auto simp: main_prepare_def split: option.splits)
  from assms(1) have t: "try_to_resume (arg_force_restart args) fs = Inr (None, None, 0)"
    by (auto simp: try_to_resume_def)
  from assms(2) show ?thesis
    unfolding main_prepare_def c t
    by (auto simp: save_vocab_def Let_def split: sum.splits)
qed

text \<open>The log of a whole run.\<close>

lemma main_log:
  assumes "main env args fs g k = Inr r"
  shows "\<exists>config epoch data r0.
           main_prepare env args fs g = Inr (config, epoch, data, r0) \<and>
           r = foldl (run_epoch env data
                        (get_default (training_get config teacher_forcing_ratio) 1.0))
                 r0 (epoch_range epoch (training_get config epochs) k)"
  using assms by (auto simp: main_def Let_def split: sum.splits)

lemma main_prepare_log:
  assumes "main_prepare env args fs g = Inr (config, epoch, data, r)"
  shows "logger r = [Resuming] \<or> logger r = [Preparing]"
  using assms
  by (auto simp: main_prepare_def Let_def split: option.splits sum.splits)

lemma main_total:
  assumes "main_prepare env args fs g = Inr x"
  shows "\<exists>r. main env args fs g k = Inr r"
  using assms by (cases x) (simp add: main_def Let_def)

lemma main_epochs:
  assumes "main env args fs g k = Inr r"
  shows "\<exists>config epoch data r0.
           main_prepare env args fs g = Inr (config, epoch, data, r0) \<and>
           r = foldl (run_epoch env data
                        (get_default (training_get config teacher_forcing_ratio) 1.0))
                 r0 (epoch_range epoch (training_get config epochs) k) \<and>
           epochs_started (logger r) = epoch_range epoch (training_get config epochs) k \<and>
           epochs_completed (logger r) = epoch_range epoch (training_get config epochs) k"
proof -
  from main_log [OF assms] obtain config epoch data r0 where
    p: "main_prepare env args fs g = Inr (config, epoch, data, r0)" and
    r: "r = foldl (run_epoch env data
                     (get_default (training_get config teacher_forcing_ratio) 1.0))
              r0 (epoch_range epoch (training_get config epochs) k)"
    by blast
  from main_prepare_log [OF p] have
    l: "epochs_started (logger r0) = []" "epochs_completed (logger r0) = []"
    by auto
  from epochs_frame [of env data
      "get_default (training_get config teacher_forcing_ratio) 1.0" r0
      "epoch_range epoch (training_get config epochs) k"] r l
  have "epochs_started (logger r) = epoch_range epoch (training_get config epochs) k"
       "epochs_completed (logger r) = epoch_range epoch (training_get config epochs) k"
    by simp_all
  with p r show ?thesis by blast
qed

subsection \<open>Resuming continues at the next epoch\<close>

text \<open>
  Claim C1. A run that resumes from an existing checkpoint, without the force-restart
  flag, continues at the stored epoch plus one: whenever \<open>try_to_resume\<close> returns, it
  returns the checkpoint and the stored epoch plus one, and it does return unless the
  optimizer file is unreadable; the epochs the loop of \<open>main\<close> then starts are the
  range from that number on, which counts up from it one by one. That the stored
  epoch is the last completed one is what the loop writes, see claim C9.
\<close>

theorem resume_continues_at_next_epoch:
  assumes "\<not> arg_force_restart args" and "checkpoint_file fs = Some ck"
      and "training_epoch ck = Some e"
  shows "(\<forall>c ts ep. try_to_resume (arg_force_restart args) fs = Inr (c, ts, ep) \<longrightarrow>
            c = Some ck \<and> ep = e + 1) \<and>
         (checkpoint_opt fs \<noteq> Corrupt \<longrightarrow>
            (\<exists>ts. try_to_resume (arg_force_restart args) fs = Inr (Some ck, ts, e + 1))) \<and>
         (\<forall>r. main env args fs g k = Inr r \<longrightarrow>
            (\<exists>config. config_yaml fs = Some config \<and>
               epochs_started (logger r) = epoch_range (e + 1) (training_get config epochs) k \<and>
               epochs_started (logger r) =
                 map (\<lambda>i. e + 1 + int i) [0..<length (epochs_started (logger r))]))"
proof -
  have 1: "\<forall>c ts ep. try_to_resume (arg_force_restart args) fs = Inr (c, ts, ep) \<longrightarrow>
            c = Some ck \<and> ep = e + 1"
    using assms by (auto simp: try_to_resume_def Let_def split: opt_file.splits)
  have 2: "checkpoint_opt fs \<noteq> Corrupt \<longrightarrow>
            (\<exists>ts. try_to_resume (arg_force_restart args) fs = Inr (Some ck, ts, e + 1))"
    using assms by (cases "checkpoint_opt fs") (simp_all add: try_to_resume_def Let_def)
  have 3: "\<forall>r. main env args fs g k = Inr r \<longrightarrow>
            (\<exists>config. config_yaml fs = Some config \<and>
               epochs_started (logger r) = epoch_range (e + 1) (training_get config epochs) k \<and>
               epochs_started (logger r) =
                 map (\<lambda>i. e + 1 + int i) [0..<length (epochs_started (logger r))])"
  proof (intro allI impI)
    fix r
    assume "main env args fs g k = Inr r"
    from main_epochs [OF this] obtain config epoch data r0 where
      p: "main_prepare env args fs g = Inr (config, epoch, data, r0)" and
      s: "epochs_started (logger r) = epoch_range epoch (training_get config epochs) k"
      by blast
    from main_prepare_resume [OF assms p] have c: "config_yaml fs = Some config"
      and e: "epoch = e + 1"
      by simp_all
    from s e have
      s': "epochs_started (logger r) = epoch_range (e + 1) (training_get config epochs) k"
      by simp
    have "epochs_started (logger r) =
            map (\<lambda>i. e + 1 + int i) [0..<length (epochs_started (logger r))]"
      unfolding s' by (rule epoch_range_consecutive)
    with c s' show "\<exists>config. config_yaml fs = Some config \<and>
               epochs_started (logger r) = epoch_range (e + 1) (training_get config epochs) k \<and>
               epochs_started (logger r) =
                 map (\<lambda>i. e + 1 + int i) [0..<length (epochs_started (logger r))]"
      by blast
  qed
  from 1 2 3 show ?thesis by blast
qed

theorem resume_continues_at_next_epoch_witness:
  "try_to_resume False (toy_resume_files\<lparr>config_yaml := Some (toy_config_with (Some 3))\<rparr>) =
     Inr (Some toy_checkpoint, None, 1) \<and>
   (\<exists>r. main toy_env toy_args
           (toy_resume_files\<lparr>config_yaml := Some (toy_config_with (Some 3))\<rparr>) 0 5 = Inr r \<and>
         epochs_started (logger r) = [1, 2])"
proof -
  let ?fs = "toy_resume_files\<lparr>config_yaml := Some (toy_config_with (Some 3))\<rparr>"
  have a: "\<not> arg_force_restart toy_args" by (simp add: toy_args_def)
  have c: "checkpoint_file ?fs = Some toy_checkpoint" by (simp add: toy_resume_files_def)
  have e: "training_epoch toy_checkpoint = Some 0" by (simp add: toy_checkpoint_def)
  have o: "checkpoint_opt ?fs = Absent" by (simp add: toy_resume_files_def toy_files_def)
  have y: "config_yaml ?fs = Some (toy_config_with (Some 3))" by simp
  have d: "data_file ?fs = Some [''cat'', ''dog'', ''cat'']"
    by (simp add: toy_resume_files_def toy_files_def)
  note t = resume_continues_at_next_epoch [OF a c e, of toy_env 0 5]
  have 1: "try_to_resume False ?fs = Inr (Some toy_checkpoint, None, 1)"
    using c e o by (simp add: try_to_resume_def)
  have "\<exists>x. main_prepare toy_env toy_args ?fs 0 = Inr x"
    using a 1 by (simp add: main_prepare_def y toy_reload_state_with [OF d])
  then obtain x where "main_prepare toy_env toy_args ?fs 0 = Inr x" ..
  from main_total [OF this] obtain r where m: "main toy_env toy_args ?fs 0 5 = Inr r" ..
  have r: "epoch_range (0 + 1) (Some 3) 5 = [1, 2]"
    by (simp add: epoch_range_def upto.simps)
  from t m y have "epochs_started (logger r) = epoch_range (0 + 1) (Some 3) 5"
    by (auto simp: toy_with_get)
  with r m 1 show ?thesis by simp
qed

subsection \<open>Forcing a restart\<close>

lemma init_state_vocabulary:
  "init_state env config args fs = Inr (m, itt, itc, opt, d) \<longrightarrow>
     (\<exists>exs tok t2i c2i. data_file fs = Some exs \<and>
        tokenize_data env exs [('''', 0)] [('''', 0)] None = (tok, t2i, c2i) \<and>
        itt = swap_items t2i \<and> itc = swap_items c2i)"
proof (cases "data_file fs")
  case None
  then show ?thesis by (simp add: init_state_def load_data_def)
next
  case (Some exs)
  obtain tok t2i c2i where
    t: "tokenize_data env exs [('''', 0)] [('''', 0)] None = (tok, t2i, c2i)"
    by (cases "tokenize_data env exs [('''', 0)] [('''', 0)] None") auto
  show ?thesis
    unfolding init_state_def Some load_data_def
    by (auto simp: t Let_def split: sum.splits option.splits if_splits)
qed

lemma inject_word_rep_files:
  "inject_word_rep env args (fs\<lparr>checkpoint_file := c, checkpoint_opt := opt_file\<rparr>) itt w =
     inject_word_rep env args fs itt w"
  by (simp add: inject_word_rep_def)

lemma init_state_files:
  "init_state env config args (fs\<lparr>checkpoint_file := c, checkpoint_opt := opt_file\<rparr>) =
     init_state env config args fs"
  unfolding init_state_def inject_word_rep_files by simp

text \<open>
  Claim C2. With the force-restart flag set the run takes the fresh path whatever the
  folder holds: \<open>try_to_resume\<close> returns no checkpoint, no training state and epoch 0;
  \<open>main\<close> then logs that it prepares, takes its state from \<open>init_state\<close> and starts
  its loop at epoch 0. \<open>init_state\<close> does not read the checkpoint files: its
  vocabulary is what the tokenizer builds from the raw data, starting from the
  dictionaries that hold the empty token only.
\<close>

theorem force_restart_takes_fresh_path:
  assumes "arg_force_restart args"
  shows "try_to_resume (arg_force_restart args) fs = Inr (None, None, 0) \<and>
         (\<forall>config epoch data r. main_prepare env args fs g = Inr (config, epoch, data, r) \<longrightarrow>
            epoch = 0 \<and> logger r = [Preparing] \<and>
            init_state env config args fs =
              Inr (run_model r, run_id_to_token r, run_id_to_char r, run_optimizer r, data)) \<and>
         (\<forall>r. main env args fs g k = Inr r \<longrightarrow>
            (\<exists>config. config_yaml fs = Some config \<and>
               epochs_started (logger r) = epoch_range 0 (training_get config epochs) k)) \<and>
         (\<forall>config c opt_file.
            init_state env config args (fs\<lparr>checkpoint_file := c, checkpoint_opt := opt_file\<rparr>) =
              init_state env config args fs) \<and>
         (\<forall>config m itt itc opt d. init_state env config args fs = Inr (m, itt, itc, opt, d) \<longrightarrow>
            (\<exists>exs tok t2i c2i. data_file fs = Some exs \<and>
               tokenize_data env exs [('''', 0)] [('''', 0)] None = (tok, t2i, c2i) \<and>
               itt = swap_items t2i \<and> itc = swap_items c2i))"
proof -
  have 1: "try_to_resume (arg_force_restart args) fs = Inr (None, None, 0)"
    using assms by (simp add: try_to_resume_def)
  have 2: "\<forall>config epoch data r. main_prepare env args fs g = Inr (config, epoch, data, r) \<longrightarrow>
            epoch = 0 \<and> logger r = [Preparing] \<and>
            init_state env config args fs =
              Inr (run_model r, run_id_to_token r, run_id_to_char r, run_optimizer r, data)"
    using main_prepare_fresh [of args fs env g] assms by blast
  have 3: "\<forall>r. main env args fs g k = Inr r \<longrightarrow>
            (\<exists>config. config_yaml fs = Some config \<and>
               epochs_started (logger r) = epoch_range 0 (training_get config epochs) k)"
  proof (intro allI impI)
    fix r assume "main env args fs g k = Inr r"
    from main_epochs [OF this] obtain config epoch data r0 where
      p: "main_prepare env args fs g = Inr (config, epoch, data, r0)" and
      s: "epochs_started (logger r) = epoch_range epoch (training_get config epochs) k"
      by blast
    from main_prepare_fresh [OF _ p] assms have "config_yaml fs = Some config" "epoch = 0"
      by simp_all
    with s show "\<exists>config. config_yaml fs = Some config \<and>
               epochs_started (logger r) = epoch_range 0 (training_get config epochs) k"
      by blast
  qed
  have 4: "\<forall>config c opt_file.
            init_state env config args (fs\<lparr>checkpoint_file := c, checkpoint_opt := opt_file\<rparr>) =
              init_state env config args fs"
    by (simp add: init_state_files)
  have 5: "\<forall>config m itt itc opt d. init_state env config args fs = Inr (m, itt, itc, opt, d) \<longrightarrow>
            (\<exists>exs tok t2i c2i. data_file fs = Some exs \<and>
               tokenize_data env exs [('''', 0)] [('''', 0)] None = (tok, t2i, c2i) \<and>
               itt = swap_items t2i \<and> itc = swap_items c2i)"
    by (rule allI)+ (rule init_state_vocabulary)
  from 1 2 3 4 5 show ?thesis by blast
qed

theorem force_restart_takes_fresh_path_witness:
  "try_to_resume True
     (toy_resume_files
        \<lparr>checkpoint_file := Some (toy_checkpoint\<lparr>vocab := Some [(0, ''''), (1, ''emu'')]\<rparr>)\<rparr>) =
     Inr (None, None, 0) \<and>
   (\<exists>config data r0.
      main_prepare toy_env (toy_args\<lparr>arg_force_restart := True\<rparr>)
        (toy_resume_files
           \<lparr>checkpoint_file := Some (toy_checkpoint\<lparr>vocab := Some [(0, ''''), (1, ''emu'')]\<rparr>)\<rparr>)
        0 = Inr (config, 0, data, r0) \<and>
      logger r0 = [Preparing] \<and> run_model r0 = (0, [0, 0, 0, 0, 0]) \<and>
      run_id_to_token r0 = toy_vocab) \<and>
   (\<exists>r. main toy_env (toy_args\<lparr>arg_force_restart := True\<rparr>)
           (toy_resume_files
              \<lparr>checkpoint_file := Some (toy_checkpoint\<lparr>vocab := Some [(0, ''''), (1, ''emu'')]\<rparr>)\<rparr>)
           0 5 = Inr r \<and>
         epochs_started (logger r) = [0])"
proof -
  let ?fs = "toy_resume_files
     \<lparr>checkpoint_file := Some (toy_checkpoint\<lparr>vocab := Some [(0, ''''), (1, ''emu'')]\<rparr>)\<rparr>"
  let ?args = "toy_args\<lparr>arg_force_restart := True\<rparr>"
  have a: "arg_force_restart ?args" by simp
  have w: "arg_word_rep ?args = False" by (simp add: toy_args_def)
  have y: "config_yaml ?fs = Some (toy_config_with (Some 1))"
    by (simp add: toy_resume_files_def toy_files_def toy_config_eq)
  have d: "data_file ?fs = Some [''cat'', ''dog'', ''cat'']"
    by (simp add: toy_resume_files_def toy_files_def)
  note i = toy_init_state [OF d w, of "Some 1"]
  note t = force_restart_takes_fresh_path [OF a, of ?fs toy_env 0 5]
  from t have 0: "try_to_resume (arg_force_restart ?args) ?fs = Inr (None, None, 0)"
    by (rule conjunct1)
  then have 1: "try_to_resume True ?fs = Inr (None, None, 0)" by simp
  have "\<exists>data r0. main_prepare toy_env ?args ?fs 0 = Inr (toy_config_with (Some 1), 0, data, r0)"
    by (simp only: main_prepare_def y 0 i option.case sum.case prod.case Let_def) simp
  then obtain data r0 where
    p: "main_prepare toy_env ?args ?fs 0 = Inr (toy_config_with (Some 1), 0, data, r0)"
    by blast
  from t p have "logger r0 = [Preparing] \<and>
      init_state toy_env (toy_config_with (Some 1)) ?args ?fs =
        Inr (run_model r0, run_id_to_token r0, run_id_to_char r0, run_optimizer r0, data)"
    by blast
  with i have 2: "logger r0 = [Preparing] \<and> run_model r0 = (0, [0, 0, 0, 0, 0]) \<and>
      run_id_to_token r0 = toy_vocab"
    by simp
  from main_total [OF p] obtain r where m: "main toy_env ?args ?fs 0 5 = Inr r" ..
  have e: "epoch_range 0 (Some 1) 5 = [0]"
    by (simp add: epoch_range_def upto.simps)
  from t m y have "epochs_started (logger r) = epoch_range 0 (Some 1) 5"
    by (auto simp: toy_with_get)
  with e m have 3: "\<exists>r. main toy_env ?args ?fs 0 5 = Inr r \<and> epochs_started (logger r) = [0]"
    by simp
  from 1 p 2 3 show ?thesis by blast
qed

subsection \<open>C3: a missing optimizer-state file\<close>

lemma get_optimizer_Some:
  "get_optimizer env model config (Some sd) =
     map_sum id (\<lambda>opt. load_state_dict opt sd) (get_optimizer env model config None)"
  by (simp add: get_optimizer_def Let_def split: option.splits)

lemma get_optimizer_None_state:
  "get_optimizer env model config None = Inr opt \<Longrightarrow> opt_state opt = None"
  by (auto simp: get_optimizer_def Let_def Adam_def split: option.splits)

lemma reload_state_optimizer_only:
  "reload_state env ck (Some sd) config fs =
     map_sum id (\<lambda>(m, itt, itc, opt, d). (m, itt, itc, load_state_dict opt sd, d))
       (reload_state env ck None config fs)"
  unfolding reload_state_def get_optimizer_Some [of env _ config sd]
  by (auto simp: Let_def split: option.splits sum.splits prod.splits)

text \<open>
  Claim C3. When the checkpoint file exists and the optimizer-state file is absent,
  resuming does not fail on that account: \<open>try_to_resume\<close> returns the checkpoint, the
  next epoch and no training state, and \<open>get_optimizer\<close>, given no state, skips
  \<open>load_state_dict\<close> and returns an optimizer without history. A present file is
  returned as the training state and loaded into the optimizer, which is the only
  difference between the two resumes: \<open>reload_state\<close> without a state fails exactly
  when it fails with one.
\<close>

theorem missing_optimizer_state_tolerated:
  assumes "checkpoint_file fs = Some ck" and "training_epoch ck = Some e"
  shows "(checkpoint_opt fs = Absent \<longrightarrow> try_to_resume False fs = Inr (Some ck, None, e + 1)) \<and>
         (\<forall>sd. checkpoint_opt fs = Valid sd \<longrightarrow>
                 try_to_resume False fs = Inr (Some ck, Some sd, e + 1)) \<and>
         (\<forall>opt. get_optimizer env model config None = Inr opt \<longrightarrow> opt_state opt = None) \<and>
         (\<forall>sd. get_optimizer env model config (Some sd) =
                 map_sum id (\<lambda>opt. load_state_dict opt sd) (get_optimizer env model config None)) \<and>
         (\<forall>sd. isl (reload_state env ck None config fs) =
                 isl (reload_state env ck (Some sd) config fs)) \<and>
         (\<forall>m itt itc opt d. reload_state env ck None config fs = Inr (m, itt, itc, opt, d) \<longrightarrow>
                 opt_state opt = None)"
proof (intro conjI allI impI)
  assume "checkpoint_opt fs = Absent"
  with assms show "try_to_resume False fs = Inr (Some ck, None, e + 1)"
    by (simp add: try_to_resume_def)
next
  fix sd assume "checkpoint_opt fs = Valid sd"
  with assms show "try_to_resume False fs = Inr (Some ck, Some sd, e + 1)"
    by (simp add: try_to_resume_def)
next
  fix opt assume "get_optimizer env model config None = Inr opt"
  then show "opt_state opt = None" by (rule get_optimizer_None_state)
next
  fix sd
  show "get_optimizer env model config (Some sd) =
          map_sum id (\<lambda>opt. load_state_dict opt sd) (get_optimizer env model config None)"
    by (rule get_optimizer_Some)
next
  fix sd
  show "isl (reload_state env ck None config fs) = isl (reload_state env ck (Some sd) config fs)"
    by (cases "reload_state env ck None config fs") (simp_all add: reload_state_optimizer_only)
next
  fix m itt itc opt d
  assume "reload_state env ck None config fs = Inr (m, itt, itc, opt, d)"
  then have "get_optimizer env m config None = Inr opt"
    by (auto simp: reload_state_def Let_def from_checkpoint_def
             split: option.splits sum.splits prod.splits if_splits)
  then show "opt_state opt = None" by (rule get_optimizer_None_state)
qed

theorem missing_optimizer_state_tolerated_witness:
  "try_to_resume False toy_resume_files = Inr (Some toy_checkpoint, None, 1) \<and>
   try_to_resume False (toy_resume_files\<lparr>checkpoint_opt := Valid (Some 3)\<rparr>) =
     Inr (Some toy_checkpoint, Some (Some 3), 1) \<and>
   (\<exists>m itt itc opt d.
      reload_state toy_env toy_checkpoint None toy_config toy_resume_files =
        Inr (m, itt, itc, opt, d) \<and> opt_state opt = None)"
proof -
  have c: "checkpoint_file toy_resume_files = Some toy_checkpoint"
    by (simp add: toy_resume_files_def)
  have c': "checkpoint_file (toy_resume_files\<lparr>checkpoint_opt := Valid (Some 3)\<rparr>) =
              Some toy_checkpoint"
    by (simp add: toy_resume_files_def)
  have e: "training_epoch toy_checkpoint = Some 0" by (simp add: toy_checkpoint_def)
  have a: "checkpoint_opt toy_resume_files = Absent"
    by (simp add: toy_resume_files_def toy_files_def)
  have v: "checkpoint_opt (toy_resume_files\<lparr>checkpoint_opt := Valid (Some 3)\<rparr>) = Valid (Some 3)"
    by simp
  have r: "\<exists>m itt itc opt d.
      reload_state toy_env toy_checkpoint None toy_config toy_resume_files = Inr (m, itt, itc, opt, d)"
    by (simp add: toy_reload_state)
  note t = missing_optimizer_state_tolerated [OF c e, of toy_env undefined toy_config]
  note t' = missing_optimizer_state_tolerated [OF c' e, of toy_env undefined toy_config]
  from t a have 1: "try_to_resume False toy_resume_files = Inr (Some toy_checkpoint, None, 0 + 1)"
    by blast
  from t' v have 2: "try_to_resume False (toy_resume_files\<lparr>checkpoint_opt := Valid (Some 3)\<rparr>) =
     Inr (Some toy_checkpoint, Some (Some 3), 0 + 1)"
    by blast
  from r t have 3: "\<exists>m itt itc opt d.
      reload_state toy_env toy_checkpoint None toy_config toy_resume_files =
        Inr (m, itt, itc, opt, d) \<and> opt_state opt = None"
    by blast
  from 1 2 3 show ?thesis by simp
qed

subsection \<open>C4: the vocabulary assertions of \<open>reload_state\<close>\<close>

text \<open>
  Claim C4. Once the checkpoint is read, the optimizer built and the data loaded,
  \<open>reload_state\<close> tokenizes the data against the vocabulary of the checkpoint. It
  fails with an assertion error if and only if the token dictionary or the character
  dictionary has changed its size; when the tokenizer added no entry, it returns the
  state it has loaded.
\<close>

theorem reload_state_asserts_vocabulary_sizes:
  assumes "bidaf config = Some bc"
      and "from_checkpoint bc checkpoint = Inr (model, id_to_token, id_to_char)"
      and "get_optimizer env model config training_state = Inr optimizer"
      and "data_file fs = Some data"
      and "tokenize_data env data (swap_items id_to_token) (swap_items id_to_char)
             (training_get config limit) = (tokenized, token_to_id, char_to_id)"
  shows "((reload_state env checkpoint training_state config fs = Inl AssertionError) =
            (dict_len token_to_id \<noteq> dict_len (swap_items id_to_token) \<or>
             dict_len char_to_id \<noteq> dict_len (swap_items id_to_char))) \<and>
         (dict_len token_to_id = dict_len (swap_items id_to_token) \<and>
          dict_len char_to_id = dict_len (swap_items id_to_char) \<longrightarrow>
            reload_state env checkpoint training_state config fs =
              Inr (model, id_to_token, id_to_char, optimizer, get_loader tokenized config))"
  using assms by (simp add: reload_state_def load_data_def Let_def)

theorem reload_state_asserts_vocabulary_sizes_witness:
  "reload_state toy_env toy_checkpoint None toy_config toy_resume_files =
     Inr ((2, [0, 0, 0, 0, 0]), toy_vocab, [(0, '''')],
          Adam [0] 0.01 (0.9, 0.999) (1 / 10 ^ 8) 0,
          get_loader [''cat'', ''dog'', ''cat''] toy_config) \<and>
   reload_state toy_env toy_checkpoint None toy_config
       (toy_resume_files\<lparr>data_file := Some [''cat'', ''emu'']\<rparr>) = Inl AssertionError"
proof -
  let ?t2i = "[('''', 0), (''<s>'', 1), (''</s>'', 2), (''cat'', 3), (''dog'', 4)] :: rvocab"
  have b: "bidaf toy_config = Some ()" by (simp add: toy_config_def)
  have f: "from_checkpoint () toy_checkpoint = Inr ((2, [0, 0, 0, 0, 0]), toy_vocab, [(0, '''')])"
    by (simp add: from_checkpoint_def toy_checkpoint_def)
  have o: "get_optimizer toy_env (2, [0, 0, 0, 0, 0]) toy_config None =
             Inr (Adam [0] 0.01 (0.9, 0.999) (1 / 10 ^ 8) 0)"
    by (simp add: get_optimizer_def toy_defs get_default_def)
  have d1: "data_file toy_resume_files = Some [''cat'', ''dog'', ''cat'']"
    by (simp add: toy_defs)
  have d2: "data_file (toy_resume_files\<lparr>data_file := Some [''cat'', ''emu'']\<rparr>) =
              Some [''cat'', ''emu'']"
    by simp
  have s1: "swap_items toy_vocab = ?t2i"
    by (simp add: swap_items_def dict_setitem_def toy_vocab_def)
  have s2: "swap_items [(0 :: nat, '''')] = [('''', 0)]"
    by (simp add: swap_items_def dict_setitem_def)
  have t1: "tokenize_data toy_env [''cat'', ''dog'', ''cat''] (swap_items toy_vocab)
              (swap_items [(0, '''')]) (training_get toy_config limit) =
              ([''cat'', ''dog'', ''cat''], ?t2i, [('''', 0)])"
    unfolding s1 s2 by (simp add: toy_defs)
  have t2: "tokenize_data toy_env [''cat'', ''emu''] (swap_items toy_vocab)
              (swap_items [(0, '''')]) (training_get toy_config limit) =
              ([''cat'', ''emu''], ?t2i @ [(''emu'', 5)], [('''', 0)])"
    unfolding s1 s2 by (simp add: toy_defs)
  from reload_state_asserts_vocabulary_sizes [OF b f o d1 t1]
  have 1: "reload_state toy_env toy_checkpoint None toy_config toy_resume_files =
     Inr ((2, [0, 0, 0, 0, 0]), toy_vocab, [(0, '''')],
          Adam [0] 0.01 (0.9, 0.999) (1 / 10 ^ 8) 0,
          get_loader [''cat'', ''dog'', ''cat''] toy_config)"
    by (simp add: s1 s2 dict_len_def)
  from reload_state_asserts_vocabulary_sizes [OF b f o d2 t2]
  have 2: "reload_state toy_env toy_checkpoint None toy_config
       (toy_resume_files\<lparr>data_file := Some [''cat'', ''emu'']\<rparr>) = Inl AssertionError"
    by (simp add: s1 s2 dict_len_def)
  from 1 2 show ?thesis by simp
qed

subsection \<open>C6: one epoch of batches\<close>

lemma concat_slices: "0 < n \<Longrightarrow> concat (slices n xs) = xs"
proof (induction n xs rule: slices.induct)
  case (1 n xs)
  show ?case
  proof (cases "xs = []")
    case True
    then show ?thesis by (simp add: slices.simps)
  next
    case False
    with 1 have "concat (slices n (drop n xs)) = drop n xs" by simp
    with False 1 show ?thesis by (subst slices.simps) simp
  qed
qed

lemma ceil_div_step:
  fixes m n :: nat
  assumes "0 < n" and "0 < m"
  shows "(m + n - 1) div n = Suc ((m - n + n - 1) div n)"
proof (cases "m \<le> n")
  case True
  from assms True have "n * 1 \<le> m + n - 1" and "m + n - 1 < n * Suc 1"
    by arith+
  then have l: "(m + n - 1) div n = 1"
    by (rule div_nat_eqI)
  from assms True have "m - n + n - 1 < n" by arith
  then have "(m - n + n - 1) div n = 0" by (rule div_less)
  with l show ?thesis by (simp only: One_nat_def)
next
  case False
  then have "m + n - 1 = (m - n + n - 1) + n" using assms by arith
  then have "(m + n - 1) div n = ((m - n + n - 1) + n) div n" by (rule arg_cong)
  also have "\<dots> = Suc ((m - n + n - 1) div n)"
    using assms(1) by (simp only: div_add_self2 neq0_conv [symmetric] not_False_eq_True)
  finally show ?thesis .
qed

lemma slices_Nil: "slices n [] = []"
  by (subst slices.simps) simp

lemma slices_Cons:
  "0 < n \<Longrightarrow> xs \<noteq> [] \<Longrightarrow> slices n xs = take n xs # slices n (drop n xs)"
  by (subst slices.simps) simp

lemma length_slices: "0 < n \<Longrightarrow> length (slices n xs) = (length xs + n - 1) div n"
proof (induction n xs rule: slices.induct)
  case (1 n xs)
  note pos = \<open>0 < n\<close>
  show ?case
  proof (cases "xs = []")
    case True
    from pos have "(n - 1) div n = 0" by (intro div_less) arith
    with True show ?thesis by (simp add: slices_Nil)
  next
    case False
    with pos have "\<not> (n = 0 \<or> xs = [])" by simp
    from "1.IH" [OF this pos]
    have IH: "length (slices n (drop n xs)) = (length xs - n + n - 1) div n"
      by (simp only: length_drop)
    from False have "0 < length xs" by simp
    from ceil_div_step [OF pos this] IH slices_Cons [OF pos False]
    show ?thesis by (simp only: list.size length_Cons)
  qed
qed

lemma nth_slices:
  "0 < n \<Longrightarrow> i < length (slices n xs) \<Longrightarrow> slices n xs ! i = take n (drop (i * n) xs)"
proof (induction n xs arbitrary: i rule: slices.induct)
  case (1 n xs)
  from "1.prems" have ne: "xs \<noteq> []" by (auto simp: slices.simps)
  have eq: "slices n xs = take n xs # slices n (drop n xs)"
    using ne "1.prems" by (subst slices.simps) simp
  show ?case
  proof (cases i)
    case 0
    with eq show ?thesis by simp
  next
    case (Suc j)
    with "1.prems" eq have "j < length (slices n (drop n xs))" by simp
    with 1 ne have "slices n (drop n xs) ! j = take n (drop (j * n) (drop n xs))" by simp
    with Suc eq show ?thesis by (simp add: add.commute)
  qed
qed

lemma mset_shuffle_by:
  assumes "mset perm = mset [0..<length xs]"
  shows "mset (shuffle_by perm xs) = mset xs"
proof -
  have "mset (shuffle_by perm xs) = image_mset (\<lambda>i. xs ! i) (mset perm)"
    by (simp add: shuffle_by_def)
  also have "\<dots> = mset (map (\<lambda>i. xs ! i) [0..<length xs])"
    by (simp add: assms)
  also have "\<dots> = mset xs" by (simp add: map_nth)
  finally show ?thesis .
qed

text \<open>
  Claim C6. For a positive batch size and a random order that is a permutation of the
  indices, the batches of one epoch of the loader hold every example exactly once: they
  are the consecutive groups, of the configured size, of the shuffled collection, the
  last one holding what is left.
\<close>

theorem epoch_batches_cover_every_example_once:
  assumes "0 < get_default (training_get config batch_size) 32"
      and "mset (fst (permutation env g (length data))) = mset [0..<length data]"
      and "epoch_batches env (get_loader data config) g = (batches, g')"
  shows "mset (concat batches) = mset data \<and>
         concat batches = shuffle_by (fst (permutation env g (length data))) data \<and>
         length batches =
           (length data + get_default (training_get config batch_size) 32 - 1)
             div get_default (training_get config batch_size) 32 \<and>
         (\<forall>i<length batches.
            batches ! i =
              take (get_default (training_get config batch_size) 32)
                (drop (i * get_default (training_get config batch_size) 32) (concat batches)))"
proof -
  let ?bs = "get_default (training_get config batch_size) 32"
  let ?ys = "shuffle_by (fst (permutation env g (length data))) data"
  have b: "batches = slices ?bs ?ys"
    using assms(3) by (auto simp: epoch_batches_def get_loader_def Let_def split: prod.splits)
  have c: "concat batches = ?ys" using b assms(1) by (simp add: concat_slices)
  have len: "length ?ys = length data"
    using mset_shuffle_by [OF assms(2)] by (metis size_mset)
  show ?thesis
    using c b assms(1) len mset_shuffle_by [OF assms(2)]
    by (simp add: length_slices nth_slices)
qed

theorem epoch_batches_cover_every_example_once_witness:
  "epoch_batches toy_env (get_loader [''cat'', ''dog'', ''emu''] toy_config) 0 =
     ([[''emu'', ''dog''], [''cat'']], 1) \<and>
   mset (concat [[''emu'', ''dog''], [''cat'']]) = mset [''cat'', ''dog'', ''emu''] \<and>
   length [[''emu'', ''dog''], [''cat'' :: string]] = (3 + 2 - 1) div 2"
proof -
  let ?data = "[''cat'', ''dog'', ''emu'']"
  have bs: "get_default (training_get toy_config batch_size) 32 = 2"
    by (rule toy_batch_size)
  have p: "fst (permutation toy_env 0 (length ?data)) = [2, 1, 0]"
    by (simp add: toy_env_def upt_rec)
  have h1: "0 < get_default (training_get toy_config batch_size) 32" by (simp add: bs)
  have h2: "mset (fst (permutation toy_env (0 :: nat) (length ?data))) = mset [0..<length ?data]"
    unfolding p by (simp add: upt_rec)
  have h3: "epoch_batches toy_env (get_loader ?data toy_config) 0 =
              ([[''emu'', ''dog''], [''cat'']], 1)"
    by (simp add: epoch_batches_def get_loader_def bs toy_env_def upt_rec shuffle_by_def
          slices.simps)
  note t = epoch_batches_cover_every_example_once [OF h1 h2 h3, unfolded bs]
  from t have m: "mset (concat [[''emu'', ''dog''], [''cat'']]) = mset ?data"
    by (rule conjunct1)
  from t have l: "length [[''emu'', ''dog''], [''cat'' :: string]] = (length ?data + 2 - 1) div 2"
    by blast
  from h3 m l show ?thesis by simp
qed

subsection \<open>A checkpoint after every epoch\<close>

text \<open>
  Claim C9. After every completed epoch the loop persists the post-epoch model
  weights, the optimizer state and the completed epoch number, as the one step
  \<open>checkpointing_checkpoint\<close>. So a run observed after any number \<open>k\<close> of epochs, once
  it has completed an epoch, has left a checkpoint whose stored epoch is the last one
  completed, whose weights are those of the process and whose companion file holds
  the state of its optimizer; every epoch started has been completed and saved; and a
  run cut short after \<open>j \<le> k\<close> epochs has completed the first \<open>j\<close> of them.
\<close>

theorem checkpoint_after_every_epoch:
  assumes "main env args fs g k = Inr r"
  shows "epochs_completed (logger r) = epochs_started (logger r) \<and>
         (epochs_completed (logger r) \<noteq> [] \<longrightarrow>
            (\<exists>ck. checkpoint_file (run_files r) = Some ck \<and>
                   training_epoch ck = Some (last (epochs_completed (logger r))) \<and>
                   training_model ck = Some (run_model r)) \<and>
            checkpoint_opt (run_files r) = Valid (state_dict (run_optimizer r))) \<and>
         (\<forall>j\<le>k. \<exists>r'. main env args fs g j = Inr r' \<and>
                   epochs_completed (logger r') = take j (epochs_completed (logger r)))"
proof -
  from main_epochs [OF assms] obtain config epoch data r0 where
    p: "main_prepare env args fs g = Inr (config, epoch, data, r0)" and
    r: "r = foldl (run_epoch env data
                     (get_default (training_get config teacher_forcing_ratio) 1.0))
              r0 (epoch_range epoch (training_get config epochs) k)" and
    s: "epochs_started (logger r) = epoch_range epoch (training_get config epochs) k" and
    c: "epochs_completed (logger r) = epoch_range epoch (training_get config epochs) k"
    by blast
  have 1: "epochs_completed (logger r) = epochs_started (logger r)"
    using s c by simp
  have 2: "epochs_completed (logger r) \<noteq> [] \<longrightarrow>
            (\<exists>ck. checkpoint_file (run_files r) = Some ck \<and>
                   training_epoch ck = Some (last (epochs_completed (logger r))) \<and>
                   training_model ck = Some (run_model r)) \<and>
            checkpoint_opt (run_files r) = Valid (state_dict (run_optimizer r))"
  proof
    assume "epochs_completed (logger r) \<noteq> []"
    with c have n: "epoch_range epoch (training_get config epochs) k \<noteq> []" by simp
    from epochs_saved [OF n, of env data
        "get_default (training_get config teacher_forcing_ratio) 1.0" r0]
    show "(\<exists>ck. checkpoint_file (run_files r) = Some ck \<and>
                   training_epoch ck = Some (last (epochs_completed (logger r))) \<and>
                   training_model ck = Some (run_model r)) \<and>
            checkpoint_opt (run_files r) = Valid (state_dict (run_optimizer r))"
      unfolding c r [symmetric] by blast
  qed
  have 3: "\<forall>j\<le>k. \<exists>r'. main env args fs g j = Inr r' \<and>
                   epochs_completed (logger r') = take j (epochs_completed (logger r))"
  proof (intro allI impI)
    fix j assume j: "j \<le> k"
    from main_total [OF p] obtain r' where m: "main env args fs g j = Inr r'" by blast
    from main_epochs [OF m] p have
      "epochs_completed (logger r') = epoch_range epoch (training_get config epochs) j"
      by auto
    with epoch_range_take [OF j] c
    have "epochs_completed (logger r') = take j (epochs_completed (logger r))" by simp
    with m show "\<exists>r'. main env args fs g j = Inr r' \<and>
                   epochs_completed (logger r') = take j (epochs_completed (logger r))"
      by blast
  qed
  from 1 2 3 show ?thesis by blast
qed

theorem checkpoint_after_every_epoch_witness:
  "(\<exists>r. main toy_env toy_args toy_files 0 5 = Inr r \<and>
         epochs_started (logger r) = [0] \<and> epochs_completed (logger r) = [0] \<and>
         checkpoint_file (run_files r) = Some toy_checkpoint \<and>
         training_epoch toy_checkpoint = Some 0 \<and>
         training_model toy_checkpoint = Some (run_model r) \<and>
         checkpoint_opt (run_files r) = Valid (state_dict (run_optimizer r))) \<and>
   (\<exists>r'. main toy_env toy_args toy_files 0 0 = Inr r' \<and> epochs_completed (logger r') = [])"
proof -
  obtain r where m: "main toy_env toy_args toy_files 0 5 = Inr r"
    and l: "logger r =
              [Preparing, StartingEpoch 0, TrainLoss 0 0, TrainPerplexity 0 1, EndOfEpoch 0]"
    and f: "checkpoint_file (run_files r) = Some toy_checkpoint"
    by (simp add: toy_main_one_epoch toy_resume_files_def)
  note t = checkpoint_after_every_epoch [OF m]
  have c: "epochs_completed (logger r) = [0]" by (simp add: l)
  from t have s: "epochs_started (logger r) = [0]" by (simp add: c)
  from t c f have
    k: "training_epoch toy_checkpoint = Some 0 \<and>
        training_model toy_checkpoint = Some (run_model r) \<and>
        checkpoint_opt (run_files r) = Valid (state_dict (run_optimizer r))"
    by auto
  from t have "\<exists>r'. main toy_env toy_args toy_files 0 0 = Inr r' \<and>
                 epochs_completed (logger r') = take 0 (epochs_completed (logger r))"
    by blast
  then have z: "\<exists>r'. main toy_env toy_args toy_files 0 0 = Inr r' \<and>
                  epochs_completed (logger r') = []"
    by simp
  from m s c f k z show ?thesis by blast
qed

subsection \<open>C10: \<open>Glove.embedding\<close>\<close>

lemma setitem_row_inv:
  assumes "setitem_row temp t x = Inr temp'"
      and "list_all (\<lambda>r. length r = snd (shape temp)) (rows temp)"
  shows "shape temp' = shape temp \<and> length (rows temp') = length (rows temp) \<and>
         list_all (\<lambda>r. length r = snd (shape temp)) (rows temp')"
  using assms
  by (auto simp: setitem_row_def Let_def list_all_iff split: ndarray.splits if_splits
           dest!: set_update_subset_insert [THEN subsetD])

lemma embedding_rows_inv:
  assumes "embedding_rows list pg t temp = Inr arr"
      and "list_all (\<lambda>r. length r = snd (shape temp)) (rows temp)"
  shows "shape arr = shape temp \<and> length (rows arr) = length (rows temp) \<and>
         list_all (\<lambda>r. length r = snd (shape temp)) (rows arr)"
  using assms
proof (induction list arbitrary: t temp)
  case Nil
  then show ?case by simp
next
  case (Cons i rest)
  from Cons.prems(1) obtain x temp' where
    x: "glove_embedding_one_string i pg = Inr x" and
    s: "setitem_row temp t x = Inr temp'" and
    r: "embedding_rows rest pg (t + 1) temp' = Inr arr"
    by (auto split: sum.splits)
  from setitem_row_inv [OF s Cons.prems(2)]
  have inv: "shape temp' = shape temp" "length (rows temp') = length (rows temp)"
    "list_all (\<lambda>r. length r = snd (shape temp')) (rows temp')" by simp_all
  from Cons.IH [OF r inv(3)] inv show ?case by simp
qed

lemma length_foldl_map2:
  "list_all (\<lambda>u. length u = length v) vs \<Longrightarrow> length (foldl (map2 (+)) (v :: real list) vs) = length v"
  by (induction vs arbitrary: v) auto

lemma map_filter_map_of:
  "v \<in> set (List.map_filter (map_of pg) ws) \<Longrightarrow> \<exists>w. (w, v) \<in> set pg"
  by (induction ws) (auto split: option.splits dest: map_of_SomeD)

lemma one_string_uniform:
  assumes "list_all (\<lambda>(w, v). length v = l) pg"
  shows "glove_embedding_one_string s pg = Inr (Scalar 0) \<or>
         (\<exists>v. glove_embedding_one_string s pg = Inr (Vector v) \<and> length v = l)"
proof -
  let ?temp = "List.map_filter (map_of pg) (map re_sub (str_split s))"
  have all: "list_all (\<lambda>v. length v = l) ?temp"
    using assms
    by (auto simp: list_all_iff dest!: map_filter_map_of)
  show ?thesis
  proof (cases ?temp)
    case Nil
    then show ?thesis by (simp add: glove_embedding_one_string_def np_sum_axis0_def)
  next
    case (Cons v vs)
    with all have "length v = l" "list_all (\<lambda>u. length u = length v) vs"
      by (auto simp: list_all_iff)
    with Cons show ?thesis
      by (simp add: glove_embedding_one_string_def np_sum_axis0_def length_foldl_map2)
  qed
qed

lemma embedding_rows_total:
  assumes "list_all (\<lambda>(w, v). length v = snd (shape temp)) pg"
  shows "\<exists>arr. embedding_rows list pg t temp = Inr arr"
  using assms
proof (induction list arbitrary: t temp)
  case Nil
  then show ?case by simp
next
  case (Cons i rest)
  from one_string_uniform [OF Cons.prems, of i]
  obtain x temp' where x: "glove_embedding_one_string i pg = Inr x"
    and s: "setitem_row temp t x = Inr temp'" and sh: "shape temp' = shape temp"
    by (auto simp: setitem_row_def Let_def)
  from Cons.IH [of temp' "t + 1"] Cons.prems sh x s show ?case by simp
qed

text \<open>
  Claim C10. Without the key \<open>a\<close> in the table, \<open>embedding\<close> raises \<open>KeyError\<close> for
  every list of strings, the empty list included. With it, an array that \<open>embedding\<close>
  returns has one row for each string and as many columns as the vector of \<open>a\<close> has
  entries; and \<open>embedding\<close> does return when all vectors of the table have that length.
\<close>

theorem embedding_KeyError_and_columns:
  "(map_of pretrained_glove ''a'' = None \<longrightarrow> embedding list pretrained_glove = Inl KeyError) \<and>
   (\<forall>a. map_of pretrained_glove ''a'' = Some a \<longrightarrow>
      (\<forall>arr. embedding list pretrained_glove = Inr arr \<longrightarrow>
         shape arr = (length list, length a) \<and> length (rows arr) = length list \<and>
         list_all (\<lambda>r. length r = length a) (rows arr)) \<and>
      (list_all (\<lambda>(w, v). length v = length a) pretrained_glove \<longrightarrow>
         (\<exists>arr. embedding list pretrained_glove = Inr arr)))"
proof (intro conjI allI impI)
  assume "map_of pretrained_glove ''a'' = None"
  then show "embedding list pretrained_glove = Inl KeyError"
    by (simp add: embedding_def dict_getitem_def)
next
  fix a arr
  assume a: "map_of pretrained_glove ''a'' = Some a"
     and r: "embedding list pretrained_glove = Inr arr"
  let ?z = "np_zeros (length list, length a)"
  from a r have "embedding_rows list pretrained_glove 0 ?z = Inr arr"
    by (simp add: embedding_def dict_getitem_def)
  moreover have "list_all (\<lambda>r. length r = snd (shape ?z)) (rows ?z)"
    by (simp add: np_zeros_def list_all_iff)
  ultimately have "shape arr = shape ?z \<and> length (rows arr) = length (rows ?z) \<and>
         list_all (\<lambda>r. length r = snd (shape ?z)) (rows arr)"
    by (rule embedding_rows_inv)
  then show "shape arr = (length list, length a)" "length (rows arr) = length list"
    "list_all (\<lambda>r. length r = length a) (rows arr)"
    by (simp_all add: np_zeros_def)
next
  fix a
  assume a: "map_of pretrained_glove ''a'' = Some a"
     and u: "list_all (\<lambda>(w, v). length v = length a) pretrained_glove"
  let ?z = "np_zeros (length list, length a)"
  from u have "list_all (\<lambda>(w, v). length v = snd (shape ?z)) pretrained_glove"
    by (simp add: np_zeros_def)
  from embedding_rows_total [OF this, of list 0] a
  show "\<exists>arr. embedding list pretrained_glove = Inr arr"
    by (simp add: embedding_def dict_getitem_def)
qed

theorem embedding_KeyError_and_columns_witness:
  "embedding [''a b'', ''zz''] [(''b'', [3, 4])] = Inl KeyError \<and>
   embedding [] [(''b'', [3, 4])] = Inl KeyError \<and>
   (\<exists>arr. embedding [''a b'', ''zz''] [(''a'', [1, 2]), (''b'', [3, 4])] = Inr arr \<and>
          shape arr = (2, 2) \<and> list_all (\<lambda>r. length r = 2) (rows arr))"
proof -
  let ?pg1 = "[(''b'', [3, 4 :: real])]"
  let ?pg2 = "[(''a'', [1, 2 :: real]), (''b'', [3, 4])]"
  let ?l = "[''a b'', ''zz'']"
  have k: "map_of ?pg1 ''a'' = None" by simp
  have 1: "embedding ?l ?pg1 = Inl KeyError"
    using embedding_KeyError_and_columns [of ?pg1 ?l] k by blast
  have 2: "embedding [] ?pg1 = Inl KeyError"
    using embedding_KeyError_and_columns [of ?pg1 "[]"] k by blast
  have a: "map_of ?pg2 ''a'' = Some [1, 2]" by simp
  have u: "list_all (\<lambda>(w, v). length v = length [1, 2 :: real]) ?pg2" by simp
  from embedding_KeyError_and_columns [of ?pg2 ?l] a u
  obtain arr where r: "embedding ?l ?pg2 = Inr arr" by blast
  with embedding_KeyError_and_columns [of ?pg2 ?l] a
  have "shape arr = (length ?l, length [1, 2 :: real])"
       "list_all (\<lambda>r. length r = length [1, 2 :: real]) (rows arr)"
    by blast+
  with r 1 2 show ?thesis by (simp add: numeral_2_eq_2)
qed

end
